theory Spec2Isabelle
  imports Complex_Main
begin

section \<open>Numeric values\<close>

text \<open>
  The wrappers of \<^verbatim>\<open>cwrappers.py\<close> work on numpy arrays of C doubles and C ints.
  A double is an IEEE 754 binary64 number: \<open>Fin x\<close> is the finite double of value \<open>x\<close>,
  beside the two infinities and NaN. Every arithmetic operation returns the exact result
  rounded to the nearest double, a tie going to the even significand, and a result that
  rounds beyond the largest double becomes an infinity. Only the sign of zero is not
  modelled: there is one zero.
\<close>

datatype double = Fin real | PInf | NInf | NaN

text \<open>The integer nearest to \<open>q\<close>, the even one of two that are equally near.\<close>

definition round_half_even :: "real \<Rightarrow> int" where
  "round_half_even q =
     (let f = \<lfloor>q\<rfloor>; d = q - of_int f
      in if d < 1/2 then f else if 1/2 < d then f + 1 else if even f then f else f + 1)"

text \<open>
  The binary exponent of \<open>x\<close>, not below that of the smallest normal double. The doubles
  with this exponent are the multiples of \<open>2 powi (binade x - 52)\<close>; below the normal
  range they are the multiples of \<open>2 powi (- 1074)\<close>.
\<close>

definition binade :: "real \<Rightarrow> int" where
  "binade x = max \<lfloor>log 2 \<bar>x\<bar>\<rfloor> (- 1022)"

definition overflow_threshold :: real where
  "overflow_threshold = 2 ^ 1024"

definition round64 :: "real \<Rightarrow> double" where
  "round64 x =
     (if x = 0 then Fin 0
      else let u = 2 powi (binade x - 52);
               r = of_int (round_half_even (x / u)) * u
           in if overflow_threshold \<le> \<bar>r\<bar> then (if 0 < x then PInf else NInf) else Fin r)"

fun isfinite :: "double \<Rightarrow> bool" where
  "isfinite (Fin x) = True"
| "isfinite PInf = False"
| "isfinite NInf = False"
| "isfinite NaN = False"

fun fneg :: "double \<Rightarrow> double" where
  "fneg (Fin x) = Fin (- x)"
| "fneg PInf = NInf"
| "fneg NInf = PInf"
| "fneg NaN = NaN"

fun fadd :: "double \<Rightarrow> double \<Rightarrow> double" where
  "fadd (Fin x) (Fin y) = round64 (x + y)"
| "fadd NaN b = NaN"
| "fadd a NaN = NaN"
| "fadd PInf NInf = NaN"
| "fadd NInf PInf = NaN"
| "fadd PInf b = PInf"
| "fadd a PInf = PInf"
| "fadd NInf b = NInf"
| "fadd a NInf = NInf"

definition fsub :: "double \<Rightarrow> double \<Rightarrow> double" where
  "fsub a b = fadd a (fneg b)"

text \<open>The infinity a product or quotient takes from the sign of its finite factor.\<close>

definition signed_inf :: "real \<Rightarrow> double" where
  "signed_inf s = (if 0 < s then PInf else if s < 0 then NInf else NaN)"

fun fmul :: "double \<Rightarrow> double \<Rightarrow> double" where
  "fmul (Fin x) (Fin y) = round64 (x * y)"
| "fmul NaN b = NaN"
| "fmul a NaN = NaN"
| "fmul (Fin x) PInf = signed_inf x"
| "fmul (Fin x) NInf = signed_inf (- x)"
| "fmul PInf (Fin y) = signed_inf y"
| "fmul NInf (Fin y) = signed_inf (- y)"
| "fmul PInf PInf = PInf"
| "fmul NInf NInf = PInf"
| "fmul PInf NInf = NInf"
| "fmul NInf PInf = NInf"

text \<open>
  Division as numpy does it on doubles: a finite nonzero value over zero is an infinity,
  zero over zero is NaN, nothing raises.
\<close>

fun fdiv :: "double \<Rightarrow> double \<Rightarrow> double" where
  "fdiv (Fin x) (Fin y) =
     (if y = 0 then (if x = 0 then NaN else if 0 < x then PInf else NInf)
      else round64 (x / y))"
| "fdiv NaN b = NaN"
| "fdiv a NaN = NaN"
| "fdiv (Fin x) PInf = Fin 0"
| "fdiv (Fin x) NInf = Fin 0"
| "fdiv PInf (Fin y) = (if 0 \<le> y then PInf else NInf)"
| "fdiv NInf (Fin y) = (if 0 \<le> y then NInf else PInf)"
| "fdiv PInf PInf = NaN"
| "fdiv PInf NInf = NaN"
| "fdiv NInf PInf = NaN"
| "fdiv NInf NInf = NaN"

fun fabs :: "double \<Rightarrow> double" where
  "fabs (Fin x) = Fin \<bar>x\<bar>"
| "fabs PInf = PInf"
| "fabs NInf = PInf"
| "fabs NaN = NaN"

fun fsqrt :: "double \<Rightarrow> double" where
  "fsqrt (Fin x) = (if x < 0 then NaN else round64 (sqrt x))"
| "fsqrt PInf = PInf"
| "fsqrt NInf = NaN"
| "fsqrt NaN = NaN"

text \<open>The ceiling of a double is a double: \<^verbatim>\<open>np.ceil\<close> does not round.\<close>

fun fceil :: "double \<Rightarrow> double" where
  "fceil (Fin x) = Fin (of_int \<lceil>x\<rceil>)"
| "fceil PInf = PInf"
| "fceil NInf = NInf"
| "fceil NaN = NaN"

text \<open>Comparisons: every comparison with NaN is false.\<close>

fun flt :: "double \<Rightarrow> double \<Rightarrow> bool" where
  "flt (Fin x) (Fin y) = (x < y)"
| "flt NaN b = False"
| "flt a NaN = False"
| "flt PInf b = False"
| "flt a NInf = False"
| "flt NInf b = True"
| "flt a PInf = True"

definition fgt :: "double \<Rightarrow> double \<Rightarrow> bool" where
  "fgt a b = flt b a"

definition fge :: "double \<Rightarrow> double \<Rightarrow> bool" where
  "fge a b = (flt b a \<or> (a = b \<and> a \<noteq> NaN))"

definition fle :: "double \<Rightarrow> double \<Rightarrow> bool" where
  "fle a b = fge b a"

text \<open>\<^verbatim>\<open>np.maximum\<close>: NaN wins.\<close>

definition fmax :: "double \<Rightarrow> double \<Rightarrow> double" where
  "fmax a b = (if a = NaN \<or> b = NaN then NaN else if flt a b then b else a)"

subsection \<open>Sums\<close>

text \<open>
  A rounded sum depends on the order of the additions, which is numpy's. Where the
  reduced axis is not the contiguous one, numpy adds the rows one after the other to an
  accumulator that starts at 0 (\<open>seq_sum\<close>). Along a contiguous axis it adds to 0 the
  result of its pairwise summation: fewer than 8 elements are added in order; up to 128
  elements are added into 8 accumulators, one for each index modulo 8, which are then
  combined in pairs, the remaining elements being added last; a longer array is cut in
  two at a multiple of 8 and the sums of the halves are added.
\<close>

definition seq_sum :: "double list \<Rightarrow> double" where
  "seq_sum a = foldl fadd (Fin 0) a"

definition lane_sum :: "double list \<Rightarrow> nat \<Rightarrow> double" where
  "lane_sum a k = foldl fadd (a ! k) (map (\<lambda>t. a ! (8 * t + k)) [1..<length a div 8])"

definition block_sum :: "double list \<Rightarrow> double" where
  "block_sum a =
     foldl fadd
       (fadd (fadd (fadd (lane_sum a 0) (lane_sum a 1)) (fadd (lane_sum a 2) (lane_sum a 3)))
             (fadd (fadd (lane_sum a 4) (lane_sum a 5)) (fadd (lane_sum a 6) (lane_sum a 7))))
       (drop (length a - length a mod 8) a)"

definition split_point :: "nat \<Rightarrow> nat" where
  "split_point n = n div 2 - (n div 2) mod 8"

function pairwise_sum :: "double list \<Rightarrow> double" where
  "pairwise_sum a =
     (if length a < 8 then seq_sum a
      else if length a \<le> 128 then block_sum a
      else fadd (pairwise_sum (take (split_point (length a)) a))
                (pairwise_sum (drop (split_point (length a)) a)))"
  by pat_completeness auto
termination
proof (relation "measure length")
  show "wf (measure length)" by simp
next
  fix a :: "double list"
  assume "\<not> length a < 8" "\<not> length a \<le> 128"
  then show "(take (split_point (length a)) a, a) \<in> measure length"
    by (simp add: split_point_def)
next
  fix a :: "double list"
  assume a: "\<not> length a < 8" "\<not> length a \<le> 128"
  have "(length a div 2) mod 8 < 8" by simp
  moreover have "64 \<le> length a div 2" using a by simp
  ultimately have "0 < split_point (length a)" unfolding split_point_def by linarith
  with a show "(drop (split_point (length a)) a, a) \<in> measure length"
    by simp
qed

text \<open>\<^verbatim>\<open>np.sum\<close> of a one-dimensional or flattened array; the sum of no element is 0.\<close>

definition np_sum :: "double list \<Rightarrow> double" where
  "np_sum a = fadd (Fin 0) (pairwise_sum a)"

text \<open>
  \<^verbatim>\<open>np.sum(a, axis=0)\<close> of a C-contiguous array of shape \<open>(m, n)\<close>: the sum of each
  column, the rows being added one after the other. An array of one column is
  contiguous along its rows and is summed as a one-dimensional array.
\<close>

definition sum_axis0 :: "nat \<Rightarrow> nat \<Rightarrow> (nat \<Rightarrow> nat \<Rightarrow> double) \<Rightarrow> double list" where
  "sum_axis0 m n a =
     map (\<lambda>j. if n = 1 then np_sum (map (\<lambda>i. a i j) [0..<m])
               else seq_sum (map (\<lambda>i. a i j) [0..<m]))
         [0..<n]"


section \<open>C ints and Python integers\<close>

text \<open>
  \<^verbatim>\<open>c_int\<close> is a 32-bit signed integer. \<^verbatim>\<open>astype(c_int)\<close> truncates a double towards
  zero; a value that does not fit (or is not finite) has no defined result in C, and the
  conversion instruction numpy uses on x86-64 returns the most negative int, which is what
  the model returns. Python's own integers are unbounded (\<open>int\<close>).
\<close>

definition INT_MIN :: int where
  "INT_MIN = - 2147483648"

definition trunc :: "real \<Rightarrow> int" where
  "trunc x = (if 0 \<le> x then \<lfloor>x\<rfloor> else \<lceil>x\<rceil>)"

fun astype_c_int :: "double \<Rightarrow> int" where
  "astype_c_int (Fin x) =
     (if - 2147483649 < x \<and> x < 2147483648 then trunc x else INT_MIN)"
| "astype_c_int PInf = INT_MIN"
| "astype_c_int NInf = INT_MIN"
| "astype_c_int NaN = INT_MIN"

text \<open>
  An integer converted to a double, as numpy does when it mixes int and double arrays:
  exact up to \<open>2\<^sup>5\<^sup>3\<close>, rounded beyond.
\<close>

definition to_double :: "int \<Rightarrow> double" where
  "to_double n = round64 (of_int n)"

text \<open>Unary minus on a \<^verbatim>\<open>np.int32\<close> scalar wraps around at the most negative value.\<close>

definition neg_int32 :: "int \<Rightarrow> int" where
  "neg_int32 n = (if n = INT_MIN then INT_MIN else - n)"

text \<open>\<^verbatim>\<open>ffi.cast("int", n)\<close> of a Python integer keeps its low 32 bits.\<close>

definition ffi_cast_int :: "int \<Rightarrow> int" where
  "ffi_cast_int n = (n + 2147483648) mod 4294967296 - 2147483648"

text \<open>
  Integer arithmetic of numpy wraps around at the width of its type. The type of
  \<^verbatim>\<open>(nrows+1) - y_lower_lim\<close>, a Python integer minus a \<^verbatim>\<open>np.int32\<close>, and with it the type
  of the array \<^verbatim>\<open>yy\<close> of line 237, depends on the version of numpy: 64 bits before
  version 2, where the integer counts as a C long, and 32 bits from version 2 on, where
  the integer takes the type of the other operand.
\<close>

datatype numpy_version = Numpy1 | Numpy2

fun int_bits :: "numpy_version \<Rightarrow> nat" where
  "int_bits Numpy1 = 64"
| "int_bits Numpy2 = 32"

definition wrap_int :: "nat \<Rightarrow> int \<Rightarrow> int" where
  "wrap_int b n = (n + 2 ^ (b - 1)) mod 2 ^ b - 2 ^ (b - 1)"

section \<open>Errors\<close>

datatype error = AssertionError string | ValueError string | OverflowError string

text \<open>\<^verbatim>\<open>int(x)\<close> of a double.\<close>

fun py_int :: "double \<Rightarrow> error + int" where
  "py_int (Fin x) = Inr (trunc x)"
| "py_int NaN = Inl (ValueError ''cannot convert float NaN to integer'')"
| "py_int PInf = Inl (OverflowError ''cannot convert float infinity to integer'')"
| "py_int NInf = Inl (OverflowError ''cannot convert float infinity to integer'')"

section \<open>Arrays\<close>

text \<open>
  A one-dimensional array is a list. A two-dimensional array handed to the native code or
  returned to the caller is a list of rows, built by \<open>tabulate2\<close> from its shape and a
  cell function.
\<close>

definition tabulate2 :: "nat \<Rightarrow> nat \<Rightarrow> (nat \<Rightarrow> nat \<Rightarrow> 'a) \<Rightarrow> 'a list list" where
  "tabulate2 m n f = map (\<lambda>i. map (\<lambda>j. f i j) [0..<n]) [0..<m]"

definition zeros :: "nat \<Rightarrow> double list" where
  "zeros n = replicate n (Fin 0)"

definition zeros2 :: "nat \<Rightarrow> nat \<Rightarrow> double list list" where
  "zeros2 m n = replicate m (replicate n (Fin 0))"

text \<open>
  A buffer handed to the native code through a pointer keeps its shape, whatever the
  native code writes: \<open>written buf f\<close> is the buffer \<open>buf\<close> holding \<open>f k\<close> at every
  index \<open>k\<close> it has.
\<close>

definition written :: "'a list \<Rightarrow> (nat \<Rightarrow> 'a) \<Rightarrow> 'a list" where
  "written buf f = map f [0..<length buf]"

definition written2 :: "'a list list \<Rightarrow> (nat \<Rightarrow> nat \<Rightarrow> 'a) \<Rightarrow> 'a list list" where
  "written2 buf f = map (\<lambda>i. map (f i) [0..<length (buf ! i)]) [0..<length buf]"

text \<open>
  The image argument. Both wrappers start with \<^verbatim>\<open>np.asanyarray(img, dtype=c_double)\<close>,
  which returns its argument itself when that is a float64 array, plain or masked: the
  model takes such an array (writeable and C-contiguous, as a freshly built array is).
  \<open>im_nrows\<close> and \<open>im_ncols\<close> are \<^verbatim>\<open>img.shape\<close>, so the two \<^verbatim>\<open>ndim\<close> assertions
  hold by the type. A masked array carries its mask array, or \<^verbatim>\<open>nomask\<close>; a plain
  array records whether it owns its buffer (\<^verbatim>\<open>flags.owndata\<close>; a slice of another array
  does not).
\<close>

datatype maskfield = Nomask | MaskArray "nat \<Rightarrow> nat \<Rightarrow> bool"

datatype arraykind = Ndarray bool | MaskedArray maskfield

record image =
  im_nrows :: nat
  im_ncols :: nat
  im_data :: "nat \<Rightarrow> nat \<Rightarrow> double"
  im_kind :: arraykind

text \<open>\<^verbatim>\<open>np.ma.getmaskarray\<close>: the mask array, all false where there is none.\<close>

fun getmaskarray_kind :: "arraykind \<Rightarrow> nat \<Rightarrow> nat \<Rightarrow> bool" where
  "getmaskarray_kind (MaskedArray (MaskArray m)) i j = m i j"
| "getmaskarray_kind (MaskedArray Nomask) i j = False"
| "getmaskarray_kind (Ndarray own) i j = False"

definition getmaskarray :: "image \<Rightarrow> nat \<Rightarrow> nat \<Rightarrow> bool" where
  "getmaskarray img = getmaskarray_kind (im_kind img)"

text \<open>
  \<^verbatim>\<open>np.ma.sum(img, axis=0)\<close>: the sum of each column over its rows, a masked entry
  counting as 0.
\<close>

definition ma_sum_axis0 :: "image \<Rightarrow> double list" where
  "ma_sum_axis0 img =
     sum_axis0 (im_nrows img) (im_ncols img)
       (\<lambda>i j. if getmaskarray img i j then Fin 0 else im_data img i j)"

section \<open>The straight-order wrapper \<^verbatim>\<open>slitfunc\<close>\<close>

text \<open>
  The native function \<^verbatim>\<open>slit_func_vert\<close> is not part of the sources: it is a parameter of
  the model. It receives the values of \<open>vert_args\<close> and writes into the buffers behind
  its pointer arguments; \<open>vert_out\<close> holds, by index, what the buffers the wrapper reads
  afterwards contain when it returns (the call is taken to return). The buffers keep the
  shapes the wrapper gave them. The wrapper itself writes nothing into the caller's image,
  which is therefore passed by value here. The spectrum comes from \<^verbatim>\<open>np.ma.sum\<close> and is
  returned as a masked array; \<open>r_sp\<close> is its data.
\<close>

record vert_args =
  va_ncols :: int
  va_nrows :: int
  va_img :: "double list list"
  va_pix_unc :: "double list list"
  va_mask :: "int list list"
  va_ycen :: "double list"
  va_osample :: int
  va_lambda_sp :: double
  va_lambda_sf :: double
  va_sp :: "double list"
  va_sl :: "double list"
  va_model :: "double list list"
  va_unc :: "double list"

record vert_out =
  vo_sp :: "nat \<Rightarrow> double"
  vo_sl :: "nat \<Rightarrow> double"
  vo_model :: "nat \<Rightarrow> nat \<Rightarrow> double"
  vo_unc :: "nat \<Rightarrow> double"
  vo_mask :: "nat \<Rightarrow> nat \<Rightarrow> int"

record vert_result =
  r_sp :: "double list"
  r_sl :: "double list"
  r_model :: "double list list"
  r_unc :: "double list"
  r_mask :: "bool list list"

text \<open>Lines 89 to 112: the derived values and the buffers of the call.\<close>

definition slitfunc_ny :: "image \<Rightarrow> int \<Rightarrow> int" where
  "slitfunc_ny img osample = osample * (int (im_nrows img) + 1) + 1"

definition slitfunc_args ::
  "image \<Rightarrow> double list \<Rightarrow> double \<Rightarrow> double \<Rightarrow> int \<Rightarrow> vert_args" where
  "slitfunc_args img ycen lambda_sp lambda_sf osample =
     (let nrows = im_nrows img;
          ncols = im_ncols img;
          ny = slitfunc_ny img osample;
          ycen1 = map (\<lambda>y. fsub y (to_double (astype_c_int y))) ycen;
          sp = ma_sum_axis0 img;
          sl = zeros (nat ny);
          mask = tabulate2 nrows ncols (\<lambda>i j. if \<not> getmaskarray img i j then 1 else 0);
          img1 = tabulate2 nrows ncols (im_data img);
          pix_unc = zeros2 nrows ncols;
          model = zeros2 nrows ncols;
          unc = zeros ncols
      in \<lparr> va_ncols = ffi_cast_int (int ncols), va_nrows = ffi_cast_int (int nrows),
           va_img = img1, va_pix_unc = pix_unc, va_mask = mask, va_ycen = ycen1,
           va_osample = ffi_cast_int osample, va_lambda_sp = lambda_sp,
           va_lambda_sf = lambda_sf, va_sp = sp, va_sl = sl, va_model = model,
           va_unc = unc \<rparr>)"

text \<open>
  Lines 130 to 132: the buffers \<open>sp\<close>, \<open>sl\<close>, \<open>model\<close>, \<open>unc\<close> and \<open>mask\<close> of the
  call as the native code leaves them, \<^verbatim>\<open>mask = ~mask.astype(bool)\<close>, and the returned
  tuple.
\<close>

definition slitfunc_result :: "vert_args \<Rightarrow> vert_out \<Rightarrow> vert_result" where
  "slitfunc_result a out =
     \<lparr> r_sp = written (va_sp a) (vo_sp out),
       r_sl = written (va_sl a) (vo_sl out),
       r_model = written2 (va_model a) (vo_model out),
       r_unc = written (va_unc a) (vo_unc out),
       r_mask = map (map (\<lambda>v. \<not> (v \<noteq> 0))) (written2 (va_mask a) (vo_mask out)) \<rparr>"

definition slitfunc ::
  "(vert_args \<Rightarrow> vert_out) \<Rightarrow> image \<Rightarrow> double list \<Rightarrow> double \<Rightarrow> double \<Rightarrow> int
     \<Rightarrow> error + vert_result" where
  "slitfunc slit_func_vert img ycen lambda_sp lambda_sf osample =
     (if im_ncols img \<noteq> length ycen
        then Inl (AssertionError ''Image and Ycen shapes are incompatible'')
      else if \<not> 0 < osample
        then Inl (AssertionError ''Oversample rate must be positive'')
      else if \<not> fge lambda_sf (Fin 0)
        then Inl (AssertionError ''Slitfunction smoothing must be positive'')
      else if \<not> fge lambda_sp (Fin 0)
        then Inl (AssertionError ''Spectrum smoothing must be positive'')
      else Inr (slitfunc_result (slitfunc_args img ycen lambda_sp lambda_sf osample)
                  (slit_func_vert (slitfunc_args img ycen lambda_sp lambda_sf osample))))"


section \<open>Library functions used by \<^verbatim>\<open>slitfunc_curved\<close>\<close>

text \<open>
  \<^verbatim>\<open>np.median\<close>, \<^verbatim>\<open>ndarray.std\<close> and \<^verbatim>\<open>scipy.ndimage.median_filter\<close> belong to numpy
  and scipy; they are modelled from their documented behaviour and from the arithmetic
  they perform on doubles. Sorting is by insertion with the comparison of doubles.
\<close>

fun insort_d :: "double \<Rightarrow> double list \<Rightarrow> double list" where
  "insort_d x [] = [x]"
| "insort_d x (y # ys) = (if fle x y then x # y # ys else y # insort_d x ys)"

definition sort_d :: "double list \<Rightarrow> double list" where
  "sort_d xs = foldr insort_d xs []"

text \<open>
  \<^verbatim>\<open>np.median\<close> of a one-dimensional array: the middle element of the sorted values, the
  mean of the two middle ones (their rounded sum, halved) for an even count, NaN when a
  NaN is present or the array is empty.
\<close>

definition np_median :: "double list \<Rightarrow> double" where
  "np_median xs =
     (let n = length xs; s = sort_d xs
      in if n = 0 \<or> NaN \<in> set xs then NaN
         else if odd n then s ! (n div 2)
         else fdiv (np_sum [s ! (n div 2 - 1), s ! (n div 2)]) (Fin 2))"

text \<open>
  \<^verbatim>\<open>ndarray.std()\<close> over all elements of a contiguous array, given flattened: the mean,
  the mean of the squared deviations from it, and the square root, every step rounded.
  On an empty array both divisions are 0/0.
\<close>

definition np_std :: "double list \<Rightarrow> double" where
  "np_std xs =
     (let n = to_double (int (length xs));
          arrmean = fdiv (np_sum xs) n;
          x = map (\<lambda>v. fsub v arrmean) xs
      in fsqrt (fdiv (np_sum (map (\<lambda>v. fmul v v) x)) n))"

text \<open>
  \<^verbatim>\<open>median_filter(sp, 5, output=sp)\<close>: each entry becomes the median (the third smallest)
  of the five entries around it; beyond the ends the array is mirrored about its edge
  (scipy's default mode \<^verbatim>\<open>reflect\<close>). The result is computed from the unfiltered
  entries.
\<close>

definition reflect_index :: "nat \<Rightarrow> int \<Rightarrow> nat" where
  "reflect_index n p =
     (let q = p mod (2 * int n) in nat (if q < int n then q else 2 * int n - 1 - q))"

definition median_filter5 :: "double list \<Rightarrow> double list" where
  "median_filter5 xs =
     map (\<lambda>j. sort_d (map (\<lambda>d. xs ! reflect_index (length xs) (int j + d)) [- 2, - 1, 0, 1, 2]) ! 2)
         [0..<length xs]"

text \<open>\<^verbatim>\<open>np.median(a, axis=1)\<close> of an array of shape \<open>(m, n)\<close>.\<close>

definition median_axis1 :: "nat \<Rightarrow> nat \<Rightarrow> (nat \<Rightarrow> nat \<Rightarrow> double) \<Rightarrow> double list" where
  "median_axis1 m n a = map (\<lambda>i. np_median (map (\<lambda>j. a i j) [0..<n])) [0..<m]"

text \<open>\<^verbatim>\<open>np.arange(a, b)\<close> on integers, \<^verbatim>\<open>np.einsum("i,j", a, b)\<close>, and \<^verbatim>\<open>np.max\<close>.\<close>

definition arange :: "int \<Rightarrow> int \<Rightarrow> int list" where
  "arange a b = [a..b - 1]"

definition einsum_ij :: "double list \<Rightarrow> double list \<Rightarrow> double list list" where
  "einsum_ij a b = map (\<lambda>x. map (\<lambda>y. fmul x y) b) a"

definition add2 :: "double list list \<Rightarrow> double list list \<Rightarrow> double list list" where
  "add2 a b = map2 (map2 fadd) a b"

definition np_max2 :: "double list list \<Rightarrow> error + double" where
  "np_max2 a =
     (case concat a of
        [] \<Rightarrow> Inl (ValueError ''zero-size array to reduction operation maximum which has no identity'')
      | x # xs \<Rightarrow> Inr (fold fmax xs x))"

section \<open>The curved-order wrapper \<^verbatim>\<open>slitfunc_curved\<close>\<close>

subsection \<open>Lines 208 to 227: the mask and the first guess\<close>

text \<open>Lines 208 and 209: the mask of the image, with every non-finite pixel added.\<close>

definition finite_mask :: "image \<Rightarrow> nat \<Rightarrow> nat \<Rightarrow> bool" where
  "finite_mask img i j = (getmaskarray img i j \<or> \<not> isfinite (im_data img i j))"

text \<open>\<^verbatim>\<open>a[mask] = 0\<close>.\<close>

definition set_zero ::
  "(nat \<Rightarrow> nat \<Rightarrow> bool) \<Rightarrow> (nat \<Rightarrow> nat \<Rightarrow> double) \<Rightarrow> nat \<Rightarrow> nat \<Rightarrow> double" where
  "set_zero m a i j = (if m i j then Fin 0 else a i j)"

text \<open>Lines 210 and 211: the data of the image with the masked pixels set to 0.\<close>

definition masked_img :: "image \<Rightarrow> nat \<Rightarrow> nat \<Rightarrow> double" where
  "masked_img img = set_zero (finite_mask img) (im_data img)"

text \<open>Lines 218 and 219: the column sums, median filtered.\<close>

definition guess_sp :: "image \<Rightarrow> double list" where
  "guess_sp img = median_filter5 (sum_axis0 (im_nrows img) (im_ncols img) (masked_img img))"

text \<open>Lines 220 and 221: the median of each row, divided by the sum of the medians.\<close>

definition guess_sl :: "image \<Rightarrow> double list" where
  "guess_sl img =
     (let sl = median_axis1 (im_nrows img) (im_ncols img) (masked_img img)
      in map (\<lambda>s. fdiv s (np_sum sl)) sl)"

text \<open>Line 223: \<^verbatim>\<open>model = sl[:, None] * sp[None, :]\<close>.\<close>

definition guess_model :: "image \<Rightarrow> nat \<Rightarrow> nat \<Rightarrow> double" where
  "guess_model img i j = fmul (guess_sl img ! i) (guess_sp img ! j)"

text \<open>Line 224: \<^verbatim>\<open>dev = (model - img).std()\<close>.\<close>

definition guess_residual :: "image \<Rightarrow> nat \<Rightarrow> nat \<Rightarrow> double" where
  "guess_residual img i j = fsub (guess_model img i j) (masked_img img i j)"

definition guess_dev :: "image \<Rightarrow> double" where
  "guess_dev img = np_std (concat (tabulate2 (im_nrows img) (im_ncols img) (guess_residual img)))"

text \<open>Line 225: \<^verbatim>\<open>mask[np.abs(model - img) > 6 * dev] = True\<close>.\<close>

definition clipped_mask :: "image \<Rightarrow> nat \<Rightarrow> nat \<Rightarrow> bool" where
  "clipped_mask img i j =
     (if fgt (fabs (guess_residual img i j)) (fmul (Fin 6) (guess_dev img)) then True
      else finite_mask img i j)"

text \<open>Lines 226 and 227: the rejected pixels set to 0, and the column sums again.\<close>

definition clean_img :: "image \<Rightarrow> nat \<Rightarrow> nat \<Rightarrow> double" where
  "clean_img img = set_zero (clipped_mask img) (masked_img img)"

definition clean_sp :: "image \<Rightarrow> double list" where
  "clean_sp img = sum_axis0 (im_nrows img) (im_ncols img) (clean_img img)"

text \<open>
  Lines 229 to 231: the mask as C ints, and
  \<^verbatim>\<open>np.sqrt(np.abs(pix_unc), where=np.isfinite(pix_unc), out=pix_unc)\<close> on a copy of the
  image.
\<close>

definition int_mask :: "image \<Rightarrow> nat \<Rightarrow> nat \<Rightarrow> int" where
  "int_mask img i j = (if clipped_mask img i j then 0 else 1)"

definition curved_pix_unc :: "image \<Rightarrow> nat \<Rightarrow> nat \<Rightarrow> double" where
  "curved_pix_unc img i j =
     (let v = clean_img img i j in if isfinite v then fsqrt (fabs v) else v)"

subsection \<open>Lines 237 to 242: the curvature padding\<close>

text \<open>
  Line 237: the upper bound \<^verbatim>\<open>(nrows+1) - y_lower_lim\<close> of \<^verbatim>\<open>np.arange\<close>. The Python
  integer \<^verbatim>\<open>nrows+1\<close> is converted to the integer type of the version, which raises
  when it does not fit; the difference wraps around. The lower bound is the negated
  \<^verbatim>\<open>np.int32\<close>.
\<close>

definition curvature_stop :: "numpy_version \<Rightarrow> nat \<Rightarrow> int \<Rightarrow> error + int" where
  "curvature_stop v nrows y_lower_lim =
     (if 2 ^ (int_bits v - 1) \<le> int nrows + 1
        then Inl (OverflowError ''Python integer out of bounds'')
      else Inr (wrap_int (int_bits v) (int nrows + 1 - y_lower_lim)))"

definition curvature_yy :: "int \<Rightarrow> int \<Rightarrow> int list" where
  "curvature_yy y_lower_lim stop = arange (neg_int32 y_lower_lim) stop"

text \<open>\<^verbatim>\<open>yy**2\<close> in the integer type of \<^verbatim>\<open>yy\<close>.\<close>

definition curvature_yy2 :: "numpy_version \<Rightarrow> int list \<Rightarrow> int list" where
  "curvature_yy2 v yy = map (\<lambda>y. wrap_int (int_bits v) (y * y)) yy"

text \<open>
  Lines 240 and 241: both outer products and their sum are arrays of doubles, so each
  product and each sum is rounded; \<^verbatim>\<open>int\<close> raises on an infinity and on NaN.
\<close>

definition curvature_max :: "double list \<Rightarrow> double list \<Rightarrow> int list \<Rightarrow> int list \<Rightarrow> error + double" where
  "curvature_max tilt shear yy yy2 =
     np_max2 (map (map fabs)
        (add2 (einsum_ij tilt (map to_double yy)) (einsum_ij shear (map to_double yy2))))"

definition curvature_dx ::
  "numpy_version \<Rightarrow> double list \<Rightarrow> double list \<Rightarrow> nat \<Rightarrow> int \<Rightarrow> error + int" where
  "curvature_dx v tilt shear nrows y_lower_lim =
     (case curvature_stop v nrows y_lower_lim of
        Inl e \<Rightarrow> Inl e
      | Inr stop \<Rightarrow>
         (case curvature_max tilt shear (curvature_yy y_lower_lim stop)
                 (curvature_yy2 v (curvature_yy y_lower_lim stop)) of
            Inl e \<Rightarrow> Inl e
          | Inr m \<Rightarrow> py_int (fceil m)))"


subsection \<open>The native call and the wrapper\<close>

text \<open>
  The native function \<^verbatim>\<open>slit_func_curved\<close> is not part of the sources either.
  \<open>curved_args\<close> are the values it receives, \<open>curved_out\<close> what the buffers the
  wrapper reads afterwards hold when it returns, together with the image buffer
  (\<open>co_img\<close>), which it receives through a pointer it may write through.
\<close>

record curved_args =
  ca_ncols :: int
  ca_nrows :: int
  ca_nx :: int
  ca_ny :: int
  ca_img :: "double list list"
  ca_pix_unc :: "double list list"
  ca_mask :: "int list list"
  ca_ycen :: "double list"
  ca_ycen_offset :: "int list"
  ca_y_lower_lim :: int
  ca_osample :: int
  ca_lambda_sp :: double
  ca_lambda_sf :: double
  ca_PSF_curve :: "double list list"
  ca_sp :: "double list"
  ca_sl :: "double list"
  ca_model :: "double list list"
  ca_unc :: "double list"
  ca_mask_out :: "int list list"
  ca_l_aij :: "double list list"
  ca_l_bj :: "double list"
  ca_p_aij :: "double list list"
  ca_p_bj :: "double list"
  ca_info :: "double list"

record curved_out =
  co_sp :: "nat \<Rightarrow> double"
  co_sl :: "nat \<Rightarrow> double"
  co_model :: "nat \<Rightarrow> nat \<Rightarrow> double"
  co_unc :: "nat \<Rightarrow> double"
  co_mask_out :: "nat \<Rightarrow> nat \<Rightarrow> int"
  co_info :: "nat \<Rightarrow> double"
  co_img :: "nat \<Rightarrow> nat \<Rightarrow> double"

record curved_result =
  c_sp :: "double list"
  c_sl :: "double list"
  c_model :: "double list list"
  c_unc :: "double list"
  c_mask :: "bool list list"
  c_info :: "double list"

text \<open>Tilt and shear: a scalar, which line 170 or 174 repeats for every column, or an array.\<close>

datatype scalar_or_array = Scalar double | Array "double list"

fun full_or_asarray :: "nat \<Rightarrow> scalar_or_array \<Rightarrow> double list" where
  "full_or_asarray n (Scalar v) = replicate n v"
| "full_or_asarray n (Array xs) = xs"

text \<open>Lines 178 to 198: the assertions, in their order. The result is the first that fails.\<close>

definition curved_checks ::
  "image \<Rightarrow> double list \<Rightarrow> double list \<Rightarrow> double list \<Rightarrow> double \<Rightarrow> double \<Rightarrow> int
     \<Rightarrow> error option" where
  "curved_checks img ycen tilt shear lambda_sp lambda_sf osample =
     (if im_ncols img \<noteq> length ycen
        then Some (AssertionError ''Image and Ycen shapes are incompatible'')
      else if im_ncols img \<noteq> length tilt
        then Some (AssertionError ''Image and Tilt shapes are incompatible'')
      else if im_ncols img \<noteq> length shear
        then Some (AssertionError ''Image and Shear shapes are incompatible'')
      else if \<not> 0 < osample
        then Some (AssertionError ''Oversample rate must be positive'')
      else if \<not> fge lambda_sf (Fin 0)
        then Some (AssertionError ''Slitfunction smoothing must be positive'')
      else if \<not> fge lambda_sp (Fin 0)
        then Some (AssertionError ''Spectrum smoothing must be positive'')
      else if \<not> list_all isfinite ycen
        then Some (AssertionError ''All values in ycen must be finite'')
      else if \<not> list_all isfinite tilt
        then Some (AssertionError ''All values in tilt must be finite'')
      else if \<not> list_all isfinite shear
        then Some (AssertionError ''All values in shear must be finite'')
      else None)"

text \<open>Line 206: \<^verbatim>\<open>np.min\<close> raises on an empty array.\<close>

fun np_min :: "int list \<Rightarrow> error + int" where
  "np_min [] =
     Inl (ValueError ''zero-size array to reduction operation minimum which has no identity'')"
| "np_min (x # xs) = Inr (fold min xs x)"

text \<open>Lines 201 to 262: the values and buffers of the native call.\<close>

definition curved_args_of ::
  "image \<Rightarrow> double list \<Rightarrow> double list \<Rightarrow> double list \<Rightarrow> double \<Rightarrow> double \<Rightarrow> int
     \<Rightarrow> int \<Rightarrow> int \<Rightarrow> curved_args" where
  "curved_args_of img ycen tilt shear lambda_sp lambda_sf osample y_lower_lim dx =
     (let nrows = im_nrows img;
          ncols = im_ncols img;
          ny = osample * (int nrows + 1) + 1;
          nx = dx * 2 + 1;
          ycen_offset = map astype_c_int ycen;
          ycen_int = map2 (\<lambda>y off. fsub y (to_double off)) ycen ycen_offset
      in \<lparr> ca_ncols = ffi_cast_int (int ncols), ca_nrows = ffi_cast_int (int nrows),
           ca_nx = ffi_cast_int nx, ca_ny = ffi_cast_int ny,
           ca_img = tabulate2 nrows ncols (clean_img img),
           ca_pix_unc = tabulate2 nrows ncols (curved_pix_unc img),
           ca_mask = tabulate2 nrows ncols (int_mask img),
           ca_ycen = ycen_int, ca_ycen_offset = ycen_offset,
           ca_y_lower_lim = y_lower_lim, ca_osample = ffi_cast_int osample,
           ca_lambda_sp = lambda_sp, ca_lambda_sf = lambda_sf,
           ca_PSF_curve = map2 (\<lambda>t s. [Fin 0, t, s]) tilt shear,
           ca_sp = clean_sp img,
           ca_sl = zeros (nat ny),
           ca_model = zeros2 nrows ncols,
           ca_unc = zeros ncols,
           ca_mask_out = replicate nrows (replicate ncols 1),
           ca_l_aij = zeros2 (nat ny) (nat (4 * osample + 1)),
           ca_l_bj = zeros (nat ny),
           ca_p_aij = zeros2 ncols 5,
           ca_p_bj = zeros ncols,
           ca_info = zeros 4 \<rparr>)"

text \<open>
  Lines 295 and 296: \<^verbatim>\<open>sp[:dx] = 0\<close> and \<^verbatim>\<open>sp[-dx:] = 0\<close> for a positive \<open>dx\<close>.
  A slice longer than the array covers the whole array.
\<close>

definition assign_head :: "nat \<Rightarrow> 'a \<Rightarrow> 'a list \<Rightarrow> 'a list" where
  "assign_head k v xs = replicate (min k (length xs)) v @ drop k xs"

definition assign_tail :: "nat \<Rightarrow> 'a \<Rightarrow> 'a list \<Rightarrow> 'a list" where
  "assign_tail k v xs = take (length xs - k) xs @ replicate (min k (length xs)) v"

definition trim_edges :: "int \<Rightarrow> double list \<Rightarrow> double list" where
  "trim_edges dx sp =
     (if 0 < dx then assign_tail (nat dx) (Fin 0) (assign_head (nat dx) (Fin 0) sp) else sp)"

text \<open>
  Lines 293 to 298: the buffers of the call as the native code leaves them,
  \<^verbatim>\<open>mask = mask_out == 0\<close>, the trimmed spectrum and the returned tuple.
\<close>

definition curved_result_of :: "curved_args \<Rightarrow> int \<Rightarrow> curved_out \<Rightarrow> curved_result" where
  "curved_result_of a dx out =
     \<lparr> c_sp = trim_edges dx (written (ca_sp a) (co_sp out)),
       c_sl = written (ca_sl a) (co_sl out),
       c_model = written2 (ca_model a) (co_model out),
       c_unc = written (ca_unc a) (co_unc out),
       c_mask = map (map (\<lambda>v. v = 0)) (written2 (ca_mask_out a) (co_mask_out out)),
       c_info = written (ca_info a) (co_info out) \<rparr>"

text \<open>
  What the wrapper does to the caller's array. \<^verbatim>\<open>np.ma.getmaskarray\<close> returns the mask
  array of a masked array itself, so lines 209 and 225 write into it; for \<^verbatim>\<open>nomask\<close> and
  for a plain array it builds a new one. \<^verbatim>\<open>np.ma.getdata\<close> returns the data without a
  copy, so lines 211 and 226 write into the caller's buffer.
\<close>

fun written_mask :: "(nat \<Rightarrow> nat \<Rightarrow> bool) \<Rightarrow> arraykind \<Rightarrow> arraykind" where
  "written_mask m (MaskedArray (MaskArray m0)) = MaskedArray (MaskArray m)"
| "written_mask m (MaskedArray Nomask) = MaskedArray Nomask"
| "written_mask m (Ndarray own) = Ndarray own"

definition caller_before_call :: "image \<Rightarrow> image" where
  "caller_before_call img =
     img \<lparr> im_data := clean_img img, im_kind := written_mask (clipped_mask img) (im_kind img) \<rparr>"

text \<open>
  Line 248: \<^verbatim>\<open>np.require\<close> with the requirement \<^verbatim>\<open>O\<close> copies an array that does not
  own its data. The data of a masked array is a view of it, so the native code gets a copy;
  a plain array that owns its buffer is passed as it is, and the native code's writes
  reach the caller.
\<close>

fun require_shares :: "arraykind \<Rightarrow> bool" where
  "require_shares (Ndarray own) = own"
| "require_shares (MaskedArray m) = False"

definition caller_after_call :: "image \<Rightarrow> curved_out \<Rightarrow> image" where
  "caller_after_call img out =
     (if require_shares (im_kind img) then (caller_before_call img) \<lparr> im_data := co_img out \<rparr>
      else caller_before_call img)"

text \<open>
  The wrapper, under a version of numpy. It returns the raised error or the returned
  tuple, and the caller's image array as the call leaves it.
\<close>

definition slitfunc_curved ::
  "numpy_version \<Rightarrow> (curved_args \<Rightarrow> curved_out) \<Rightarrow> image \<Rightarrow> double list \<Rightarrow> scalar_or_array
     \<Rightarrow> scalar_or_array \<Rightarrow> double \<Rightarrow> double \<Rightarrow> int \<Rightarrow> (error + curved_result) \<times> image" where
  "slitfunc_curved v slit_func_curved img ycen tilt0 shear0 lambda_sp lambda_sf osample =
     (let tilt = full_or_asarray (im_ncols img) tilt0;
          shear = full_or_asarray (im_ncols img) shear0
      in case curved_checks img ycen tilt shear lambda_sp lambda_sf osample of
           Some e \<Rightarrow> (Inl e, img)
         | None \<Rightarrow>
            (case np_min (map astype_c_int ycen) of
               Inl e \<Rightarrow> (Inl e, img)
             | Inr y_lower_lim \<Rightarrow>
                (case curvature_dx v tilt shear (im_nrows img) y_lower_lim of
                   Inl e \<Rightarrow> (Inl e, caller_before_call img)
                 | Inr dx \<Rightarrow>
                    (let a = curved_args_of img ycen tilt shear lambda_sp lambda_sf
                               osample y_lower_lim dx;
                         out = slit_func_curved a
                     in (Inr (curved_result_of a dx out), caller_after_call img out)))))"

section \<open>The specification's formulas\<close>

text \<open>
  The specification's per-pixel uncertainty: the square root of the pixel value clipped to
  be non-negative.
\<close>

definition sqrt_clipped :: "double \<Rightarrow> double" where
  "sqrt_clipped v = fsqrt (fmax v (Fin 0))"

text \<open>
  The specification's curvature polynomial: the horizontal displacement at the row
  displacement \<open>y\<close> is \<open>tilt * y + shear * y\<^sup>2\<close>, and the padding width is the largest
  absolute displacement over the columns and the rows, rounded up. \<open>real_of\<close> reads a
  finite double.
\<close>

fun real_of :: "double \<Rightarrow> real" where
  "real_of (Fin x) = x"
| "real_of PInf = 0"
| "real_of NInf = 0"
| "real_of NaN = 0"

definition displacement :: "real \<Rightarrow> real \<Rightarrow> int \<Rightarrow> real" where
  "displacement tilt shear y = tilt * real_of_int y + shear * (real_of_int y)\<^sup>2"

definition spec_padding :: "real list \<Rightarrow> real list \<Rightarrow> int list \<Rightarrow> int" where
  "spec_padding tilt shear rows =
     \<lceil>Max (set (concat (map (\<lambda>(t, s). map (\<lambda>y. \<bar>displacement t s y\<bar>) rows) (zip tilt shear))))\<rceil>"

text \<open>
  The same polynomial evaluated in doubles: both products and their sum are rounded to the
  nearest double. There is no value when a product or the sum is beyond the largest
  double.
\<close>

fun finite_value :: "double \<Rightarrow> real option" where
  "finite_value (Fin x) = Some x"
| "finite_value PInf = None"
| "finite_value NInf = None"
| "finite_value NaN = None"

definition rounded_displacement :: "real \<Rightarrow> real \<Rightarrow> int \<Rightarrow> real option" where
  "rounded_displacement tilt shear y =
     (case finite_value (round64 (tilt * real_of_int y)) of
        None \<Rightarrow> None
      | Some a \<Rightarrow>
         (case finite_value (round64 (shear * (real_of_int y)\<^sup>2)) of
            None \<Rightarrow> None
          | Some b \<Rightarrow> finite_value (round64 (a + b))))"

section \<open>Example inputs\<close>

text \<open>
  Concrete inputs on which the theorems below are instantiated. The two native routines
  used there return at once: every buffer holds what the wrapper put into it.
\<close>

definition idle_vert :: "vert_args \<Rightarrow> vert_out" where
  "idle_vert a = \<lparr> vo_sp = (\<lambda>j. va_sp a ! j), vo_sl = (\<lambda>k. va_sl a ! k),
      vo_model = (\<lambda>i j. va_model a ! i ! j), vo_unc = (\<lambda>j. va_unc a ! j),
      vo_mask = (\<lambda>i j. va_mask a ! i ! j) \<rparr>"

definition idle_curved :: "curved_args \<Rightarrow> curved_out" where
  "idle_curved a = \<lparr> co_sp = (\<lambda>j. ca_sp a ! j), co_sl = (\<lambda>k. ca_sl a ! k),
      co_model = (\<lambda>i j. ca_model a ! i ! j), co_unc = (\<lambda>j. ca_unc a ! j),
      co_mask_out = (\<lambda>i j. ca_mask_out a ! i ! j), co_info = (\<lambda>k. ca_info a ! k),
      co_img = (\<lambda>i j. ca_img a ! i ! j) \<rparr>"

text \<open>A masked array of one row and two columns; the pixel holding 5 is masked.\<close>

definition example_img :: image where
  "example_img = \<lparr> im_nrows = 1, im_ncols = 2,
     im_data = (\<lambda>i j. [[Fin 5, Fin 3]] ! i ! j),
     im_kind = MaskedArray (MaskArray (\<lambda>i j. [[True, False]] ! i ! j)) \<rparr>"

text \<open>A plain array of one row and four columns that owns its buffer.\<close>

definition example_wide :: image where
  "example_wide = \<lparr> im_nrows = 1, im_ncols = 4,
     im_data = (\<lambda>i j. [[Fin 1, Fin 2, Fin 3, Fin 4]] ! i ! j),
     im_kind = Ndarray True \<rparr>"

text \<open>A plain array of one pixel holding a negative value, and one holding a NaN beside a 3.\<close>

definition example_neg :: image where
  "example_neg = \<lparr> im_nrows = 1, im_ncols = 1,
     im_data = (\<lambda>i j. [[Fin (- 4)]] ! i ! j),
     im_kind = Ndarray False \<rparr>"

definition example_nan :: image where
  "example_nan = \<lparr> im_nrows = 1, im_ncols = 2,
     im_data = (\<lambda>i j. [[NaN, Fin 3]] ! i ! j),
     im_kind = Ndarray True \<rparr>"

text \<open>A plain array of two rows and one column.\<close>

definition example_tall :: image where
  "example_tall = \<lparr> im_nrows = 2, im_ncols = 1,
     im_data = (\<lambda>i j. [[Fin 1], [Fin 1]] ! i ! j),
     im_kind = Ndarray True \<rparr>"

text \<open>
  The double nearest to one tenth, which is what \<^verbatim>\<open>0.1\<close> denotes in Python, and the
  double \<open>2\<^sup>1\<^sup>0\<^sup>2\<^sup>3\<close>.
\<close>

definition tenth :: real where
  "tenth = 3602879701896397 / 36028797018963968"

definition huge :: real where
  "huge = 2 ^ 1023"

text \<open>A native routine that copies the trace offsets it receives into the spectrum.\<close>

definition trace_probe_vert :: "vert_args \<Rightarrow> vert_out" where
  "trace_probe_vert a = \<lparr> vo_sp = (\<lambda>j. va_ycen a ! j), vo_sl = (\<lambda>k. va_sl a ! k),
      vo_model = (\<lambda>i j. va_model a ! i ! j), vo_unc = (\<lambda>j. va_unc a ! j),
      vo_mask = (\<lambda>i j. va_mask a ! i ! j) \<rparr>"

section \<open>Rounding\<close>

text \<open>
  A real number that is an integer of less than 54 bits times a power of two within the
  exponent range is a double, and rounds to itself; a number at or beyond \<open>2\<^sup>1\<^sup>0\<^sup>2\<^sup>4\<close>
  rounds to an infinity.
\<close>

lemma round_half_even_of_int [simp]: "round_half_even (of_int n) = n"
  by (simp add: round_half_even_def)

lemma round_half_even_minus: "round_half_even (- q) = - round_half_even q"
proof (cases "q \<in> \<int>")
  case True
  then obtain n where "q = of_int n" by (auto elim: Ints_cases)
  then show ?thesis by (simp flip: of_int_minus)
next
  case False
  then have "q \<noteq> of_int \<lfloor>q\<rfloor>" by (metis Ints_of_int)
  then have c: "\<lceil>q\<rceil> = \<lfloor>q\<rfloor> + 1" by (simp add: ceiling_altdef)
  have "\<lfloor>- q\<rfloor> = - \<lceil>q\<rceil>" by (simp add: ceiling_def)
  with c have "\<lfloor>- q\<rfloor> = - \<lfloor>q\<rfloor> - 1" by simp
  then show ?thesis
    by (auto simp: round_half_even_def Let_def)
qed

lemma round64_minus: "round64 (- x) = fneg (round64 x)"
proof (cases "x = 0")
  case True
  then show ?thesis by (simp add: round64_def)
next
  case False
  have b: "binade (- x) = binade x" by (simp add: binade_def)
  have "round_half_even (- x / u) = - round_half_even (x / u)" for u
    using round_half_even_minus [of "x / u"] by simp
  with False show ?thesis
    by (simp add: round64_def Let_def b)
qed

lemma floor_log2_eqI:
  assumes "2 powi e \<le> x" and "x < 2 powi (e + 1)"
  shows "\<lfloor>log 2 x\<rfloor> = e"
proof -
  have pos: "0 < x" using assms(1) by (smt (verit) zero_less_power_int)
  have "(2::real) powr real_of_int e = 2 powi e" "(2::real) powr (real_of_int e + 1) = 2 powi (e + 1)"
    using powr_real_of_int' [of "2::real" e] powr_real_of_int' [of "2::real" "e + 1"] by simp_all
  with assms pos show ?thesis by (simp add: floor_log_eq_powr_iff)
qed

lemma binade_eqI:
  assumes "2 powi e \<le> \<bar>x\<bar>" and "\<bar>x\<bar> < 2 powi (e + 1)" and "- 1022 \<le> e"
  shows "binade x = e"
  using floor_log2_eqI [OF assms(1,2)] assms(3) by (simp add: binade_def)

lemma floor_log2_less:
  assumes "0 < x" and "x < 2 powi k"
  shows "\<lfloor>log 2 x\<rfloor> < k"
proof -
  define e where "e = \<lfloor>log 2 x\<rfloor>"
  have "(2::real) powr real_of_int e \<le> x"
    using assms(1) floor_log_eq_powr_iff [of x 2 e] by (simp add: e_def)
  then have "(2::real) powi e \<le> x"
    using powr_real_of_int' [of "2::real" e] by simp
  with assms(2) have "(2::real) powi e < 2 powi k" by linarith
  then have "e < k"
    by (metis linorder_not_less one_less_numeral_iff power_int_increasing semiring_norm(76) less_eq_real_def)
  then show ?thesis by (simp add: e_def)
qed

lemma round64_binade:
  assumes "x \<noteq> 0" and "binade x = e"
  shows "round64 x =
           (if overflow_threshold \<le> \<bar>of_int (round_half_even (x / 2 powi (e - 52))) * 2 powi (e - 52)\<bar>
            then (if 0 < x then PInf else NInf)
            else Fin (of_int (round_half_even (x / 2 powi (e - 52))) * 2 powi (e - 52)))"
  using assms by (simp add: round64_def Let_def)

lemma round64_exact:
  assumes "\<bar>m\<bar> < 2 ^ 53" and "- 1074 \<le> e" and "e \<le> 971"
  shows "round64 (of_int m * 2 powi e) = Fin (of_int m * 2 powi e)"
proof (cases "m = 0")
  case True
  then show ?thesis by (simp add: round64_def)
next
  case False
  let ?x = "of_int m * 2 powi e :: real"
  have x0: "?x \<noteq> 0" using False by simp
  have absx: "\<bar>?x\<bar> = of_int \<bar>m\<bar> * 2 powi e" by (simp add: abs_mult)
  have "real_of_int \<bar>m\<bar> < 2 ^ 53" using assms(1) by (metis of_int_less_numeral_power_cancel_iff)
  then have "\<bar>?x\<bar> < 2 ^ 53 * 2 powi e"
    unfolding absx by (intro mult_strict_right_mono) simp_all
  also have "\<dots> = 2 powi (53 + e)" by (simp add: power_int_add)
  finally have "\<lfloor>log 2 \<bar>?x\<bar>\<rfloor> < 53 + e"
    using x0 by (intro floor_log2_less) simp_all
  then have b: "binade ?x - 52 \<le> e" using assms(2) by (simp add: binade_def)
  define c where "c = binade ?x - 52"
  define k where "k = nat (e - c)"
  define u :: real where "u = 2 powi c"
  define p :: real where "p = 2 powi e"
  have upos: "0 < u" by (simp add: u_def)
  have pu: "p = u * 2 ^ k"
  proof -
    have "e = c + int k" using b by (simp add: k_def c_def)
    then have "p = 2 powi (c + int k)" by (simp add: p_def)
    also have "\<dots> = 2 powi c * 2 powi (int k)" by (simp add: power_int_add)
    finally show ?thesis by (simp add: u_def)
  qed
  have q: "of_int m * p / u = of_int (m * 2 ^ k)"
    using upos by (simp add: pu)
  have "of_int (round_half_even (of_int m * p / u)) * u = of_int (m * 2 ^ k) * u"
    unfolding q round_half_even_of_int ..
  also have "\<dots> = of_int m * p" by (simp add: pu)
  finally have r: "of_int (round_half_even (of_int m * p / u)) * u = of_int m * p" .
  have "\<bar>?x\<bar> < 2 ^ 53 * 2 powi e" by fact
  also have "\<dots> \<le> 2 ^ 53 * 2 powi 971"
    using assms(3) by (intro mult_left_mono power_int_increasing) simp_all
  also have "\<dots> = overflow_threshold" by (simp add: overflow_threshold_def)
  finally have "\<not> overflow_threshold \<le> \<bar>?x\<bar>" by simp
  with x0 r show ?thesis
    unfolding round64_def Let_def p_def u_def c_def by simp
qed

lemma round64_int:
  assumes "\<bar>n\<bar> < 2 ^ 53"
  shows "round64 (of_int n) = Fin (of_int n)"
  using round64_exact [OF assms, of 0] by simp


lemma round64_dyadic:
  assumes "\<bar>m\<bar> < 2 ^ 53" and "k \<le> 1074"
  shows "round64 (of_int m / 2 ^ k) = Fin (of_int m / 2 ^ k)"
proof -
  have "(of_int m :: real) / 2 ^ k = of_int m * 2 powi (- int k)"
    by (simp add: power_int_minus field_simps)
  with round64_exact [OF assms(1), of "- int k"] assms(2) show ?thesis by simp
qed

lemma round64_numeral:
  "numeral n < (2::int) ^ 53 \<Longrightarrow> round64 (numeral n) = Fin (numeral n)"
  using round64_int [of "numeral n"] by simp

lemma round64_0: "round64 0 = Fin 0"
  by (simp add: round64_def)

lemma round64_1: "round64 1 = Fin 1"
  using round64_int [of 1] by simp

lemma round64_halves:
  "numeral n < (2::int) ^ 53 \<Longrightarrow> round64 (numeral n / 2) = Fin (numeral n / 2)"
  "numeral n < (2::int) ^ 53 \<Longrightarrow> round64 (numeral n / 4) = Fin (numeral n / 4)"
  "numeral n < (2::int) ^ 53 \<Longrightarrow> round64 (numeral n / 8) = Fin (numeral n / 8)"
  "round64 (1 / 2) = Fin (1 / 2)" "round64 (1 / 4) = Fin (1 / 4)" "round64 (1 / 8) = Fin (1 / 8)"
  using round64_dyadic [of "numeral n" 1]
    round64_dyadic [of "numeral n" 2] round64_dyadic [of "numeral n" 3]
    round64_dyadic [of 1 1] round64_dyadic [of 1 2] round64_dyadic [of 1 3]
  by simp_all

lemma round64_overflow:
  assumes "overflow_threshold \<le> \<bar>x\<bar>"
  shows "round64 x = (if 0 < x then PInf else NInf)"
proof -
  have x0: "x \<noteq> 0" using assms by (auto simp: overflow_threshold_def)
  define e where "e = \<lfloor>log 2 \<bar>x\<bar>\<rfloor>"
  have "(2::real) powr real_of_int e \<le> \<bar>x\<bar>"
    using x0 floor_log_eq_powr_iff [of "\<bar>x\<bar>" 2 e] by (simp add: e_def)
  then have lo: "(2::real) powi e \<le> \<bar>x\<bar>"
    using powr_real_of_int' [of "2::real" e] by simp
  have "\<not> \<lfloor>log 2 \<bar>x\<bar>\<rfloor> < 1024"
  proof
    assume "\<lfloor>log 2 \<bar>x\<bar>\<rfloor> < 1024"
    then have "\<lfloor>log 2 \<bar>x\<bar>\<rfloor> + 1 \<le> 1024" by simp
    moreover have "\<bar>x\<bar> < (2::real) powr (real_of_int \<lfloor>log 2 \<bar>x\<bar>\<rfloor> + 1)"
      using x0 floor_log_eq_powr_iff [of "\<bar>x\<bar>" 2 "\<lfloor>log 2 \<bar>x\<bar>\<rfloor>"] by simp
    then have "\<bar>x\<bar> < (2::real) powi (\<lfloor>log 2 \<bar>x\<bar>\<rfloor> + 1)"
      using powr_real_of_int' [of "2::real" "\<lfloor>log 2 \<bar>x\<bar>\<rfloor> + 1"] by simp
    ultimately have "\<bar>x\<bar> < (2::real) powi 1024"
      by (smt (verit) power_int_increasing)
    with assms show False by (simp add: overflow_threshold_def)
  qed
  then have e: "1024 \<le> e" by (simp add: e_def)
  then have b: "binade x = e" by (simp add: binade_def e_def)
  define u :: real where "u = 2 powi (e - 52)"
  have upos: "0 < u" by (simp add: u_def)
  have eu: "(2::real) powi e = 2 ^ 52 * u"
    using power_int_add [of "2::real" 52 "e - 52"] by (simp add: u_def)
  have "2 ^ 52 \<le> \<bar>x\<bar> / u"
    using lo upos by (simp add: eu field_simps)
  then have "2 ^ 52 \<le> \<lfloor>\<bar>x\<bar> / u\<rfloor>" by (simp add: le_floor_iff)
  moreover have "\<lfloor>q\<rfloor> \<le> round_half_even q" for q
    by (simp add: round_half_even_def Let_def)
  moreover note round_half_even_minus
  ultimately have n: "2 ^ 52 \<le> \<bar>round_half_even (x / u)\<bar>"
    by (cases "0 \<le> x") (smt (verit) abs_of_nonneg abs_of_neg minus_divide_left abs_le_iff)+
  have "overflow_threshold \<le> 2 powi e"
    using e power_int_increasing [of 1024 e "2::real"] by (simp add: overflow_threshold_def)
  also have "\<dots> = 2 ^ 52 * u" by (rule eu)
  also have "\<dots> \<le> of_int \<bar>round_half_even (x / u)\<bar> * u"
    using n upos by (intro mult_right_mono) (simp_all add: numeral_power_le_of_int_cancel_iff)
  also have "\<dots> = \<bar>of_int (round_half_even (x / u)) * u\<bar>"
    using upos by (simp add: abs_mult)
  finally show ?thesis
    using x0 b by (simp add: round64_def Let_def u_def)
qed

lemma round64_value:
  assumes "2 powi e \<le> \<bar>x\<bar>" and "\<bar>x\<bar> < 2 powi (e + 1)" and "- 1022 \<le> e" and "e \<le> 970"
      and "round_half_even (x / 2 powi (e - 52)) = n" and "\<bar>n\<bar> \<le> 2 ^ 53"
  shows "round64 x = Fin (of_int n * 2 powi (e - 52))"
proof -
  have b: "binade x = e" by (rule binade_eqI) fact+
  have x0: "x \<noteq> 0" using assms(1) by (smt (verit) zero_less_power_int)
  have "real_of_int \<bar>n\<bar> \<le> 2 ^ 53" using assms(6) by (metis of_int_le_numeral_power_cancel_iff)
  then have "\<bar>real_of_int n * 2 powi (e - 52)\<bar> \<le> 2 ^ 53 * 2 powi (e - 52)"
    by (simp add: abs_mult mult_right_mono)
  also have "\<dots> = 2 powi (e + 1)"
  proof -
    have "(2::real) powi e = 2 ^ 52 * 2 powi (e - 52)"
      using power_int_add [of "2::real" 52 "e - 52"] by simp
    moreover have "(2::real) powi (e + 1) = 2 powi e * 2"
      using power_int_add [of "2::real" e 1] by simp
    ultimately show ?thesis by simp
  qed
  also have "\<dots> \<le> 2 powi 971"
    using assms(4) by (intro power_int_increasing) simp_all
  also have "\<dots> < overflow_threshold" by (simp add: overflow_threshold_def)
  finally have "\<not> overflow_threshold \<le> \<bar>real_of_int n * 2 powi (e - 52)\<bar>" by simp
  with round64_binade [OF x0 b] assms(5) show ?thesis by simp
qed

lemma round64_nonzero:
  assumes "1 \<le> x"
  shows "round64 x \<noteq> Fin 0"
proof (cases "overflow_threshold \<le> \<bar>x\<bar>")
  case True
  then show ?thesis by (simp add: round64_overflow)
next
  case False
  define e where "e = \<lfloor>log 2 \<bar>x\<bar>\<rfloor>"
  have x: "0 < x" "\<bar>x\<bar> = x" using assms by simp_all
  have "(2::real) powr real_of_int e \<le> \<bar>x\<bar>"
    using x floor_log_eq_powr_iff [of "\<bar>x\<bar>" 2 e] by (simp add: e_def)
  then have lo: "(2::real) powi e \<le> x"
    using powr_real_of_int' [of "2::real" e] x by simp
  have "0 \<le> log 2 x" using assms by simp
  then have e0: "0 \<le> e" using x by (simp add: e_def)
  then have b: "binade x = e" by (simp add: binade_def e_def)
  define u :: real where "u = 2 powi (e - 52)"
  have upos: "0 < u" by (simp add: u_def)
  have eu: "(2::real) powi e = 2 ^ 52 * u"
    using power_int_add [of "2::real" 52 "e - 52"] by (simp add: u_def)
  have "2 ^ 52 \<le> x / u"
    using lo upos by (simp add: eu field_simps)
  then have "2 ^ 52 \<le> \<lfloor>x / u\<rfloor>" by (simp add: le_floor_iff)
  moreover have "\<lfloor>q\<rfloor> \<le> round_half_even q" for q
    by (simp add: round_half_even_def Let_def)
  ultimately have "0 < round_half_even (x / u)"
    by (smt (verit) zero_less_power)
  then have "of_int (round_half_even (x / u)) * u \<noteq> 0" using upos by simp
  then show ?thesis
    using x b by (auto simp: round64_def Let_def u_def)
qed

lemmas round64_eval = round64_numeral round64_0 round64_1 round64_halves round64_minus

section \<open>Properties of the wrappers\<close>

subsection \<open>When the wrappers return\<close>

lemma slitfunc_Inr:
  "slitfunc K img ycen lambda_sp lambda_sf osample = Inr r \<Longrightarrow>
     im_ncols img = length ycen \<and> 0 < osample \<and> fge lambda_sf (Fin 0) \<and> fge lambda_sp (Fin 0)
     \<and> r = slitfunc_result (slitfunc_args img ycen lambda_sp lambda_sf osample)
               (K (slitfunc_args img ycen lambda_sp lambda_sf osample))"
  by (auto simp: slitfunc_def split: if_splits)

lemma curved_checks_None:
  "curved_checks img ycen tilt shear lambda_sp lambda_sf osample = None \<longleftrightarrow>
     im_ncols img = length ycen \<and> im_ncols img = length tilt \<and> im_ncols img = length shear
     \<and> 0 < osample \<and> fge lambda_sf (Fin 0) \<and> fge lambda_sp (Fin 0)
     \<and> list_all isfinite ycen \<and> list_all isfinite tilt \<and> list_all isfinite shear"
  by (simp add: curved_checks_def)

lemma slitfunc_curved_Inr:
  assumes "fst (slitfunc_curved v K img ycen tilt0 shear0 lambda_sp lambda_sf osample) = Inr c"
  shows "\<exists>y_lower_lim dx.
           curved_checks img ycen (full_or_asarray (im_ncols img) tilt0)
               (full_or_asarray (im_ncols img) shear0) lambda_sp lambda_sf osample = None
         \<and> np_min (map astype_c_int ycen) = Inr y_lower_lim
         \<and> curvature_dx v (full_or_asarray (im_ncols img) tilt0)
               (full_or_asarray (im_ncols img) shear0) (im_nrows img) y_lower_lim = Inr dx
         \<and> slitfunc_curved v K img ycen tilt0 shear0 lambda_sp lambda_sf osample =
             (let a = curved_args_of img ycen (full_or_asarray (im_ncols img) tilt0)
                            (full_or_asarray (im_ncols img) shear0) lambda_sp lambda_sf osample
                            y_lower_lim dx
              in (Inr (curved_result_of a dx (K a)), caller_after_call img (K a)))"
  using assms
  by (auto simp: slitfunc_curved_def Let_def split: option.splits sum.splits)

lemma slitfunc_curved_eq:
  assumes "curved_checks img ycen (full_or_asarray (im_ncols img) tilt0)
               (full_or_asarray (im_ncols img) shear0) lambda_sp lambda_sf osample = None"
      and "np_min (map astype_c_int ycen) = Inr y_lower_lim"
      and "curvature_dx v (full_or_asarray (im_ncols img) tilt0)
               (full_or_asarray (im_ncols img) shear0) (im_nrows img) y_lower_lim = Inr dx"
  shows "slitfunc_curved v K img ycen tilt0 shear0 lambda_sp lambda_sf osample =
           (Inr (curved_result_of
                  (curved_args_of img ycen (full_or_asarray (im_ncols img) tilt0)
                        (full_or_asarray (im_ncols img) shear0) lambda_sp lambda_sf osample
                        y_lower_lim dx) dx
                  (K (curved_args_of img ycen (full_or_asarray (im_ncols img) tilt0)
                        (full_or_asarray (im_ncols img) shear0) lambda_sp lambda_sf osample
                        y_lower_lim dx))),
            caller_after_call img
                  (K (curved_args_of img ycen (full_or_asarray (im_ncols img) tilt0)
                        (full_or_asarray (im_ncols img) shear0) lambda_sp lambda_sf osample
                        y_lower_lim dx)))"
  using assms by (simp add: slitfunc_curved_def Let_def)

subsection \<open>Arrays and slices\<close>

lemma length_written [simp]: "length (written buf f) = length buf"
  by (simp add: written_def)

lemma nth_written [simp]: "k < length buf \<Longrightarrow> written buf f ! k = f k"
  by (simp add: written_def)

lemma nth_written2:
  "i < length buf \<Longrightarrow> j < length (buf ! i) \<Longrightarrow> written2 buf f ! i ! j = f i j"
  by (simp add: written2_def)

lemma length_written2 [simp]: "length (written2 buf f) = length buf"
  by (simp add: written2_def)

lemma length_nth_written2:
  "i < length buf \<Longrightarrow> length (written2 buf f ! i) = length (buf ! i)"
  by (simp add: written2_def)

lemma length_tabulate2 [simp]: "length (tabulate2 m n f) = m"
  by (simp add: tabulate2_def)

lemma length_nth_tabulate2 [simp]: "i < m \<Longrightarrow> length (tabulate2 m n f ! i) = n"
  by (simp add: tabulate2_def)

lemma nth_written2_row [simp]:
  "i < length buf \<Longrightarrow> written2 buf f ! i = map (f i) [0..<length (buf ! i)]"
  by (simp add: written2_def)

lemma slitfunc_args_buffers:
  "va_mask (slitfunc_args img ycen lambda_sp lambda_sf osample)
     = tabulate2 (im_nrows img) (im_ncols img) (\<lambda>i j. if \<not> getmaskarray img i j then 1 else 0)"
  "va_sl (slitfunc_args img ycen lambda_sp lambda_sf osample) = zeros (nat (slitfunc_ny img osample))"
  "va_pix_unc (slitfunc_args img ycen lambda_sp lambda_sf osample) = zeros2 (im_nrows img) (im_ncols img)"
  "va_img (slitfunc_args img ycen lambda_sp lambda_sf osample)
     = tabulate2 (im_nrows img) (im_ncols img) (im_data img)"
  "va_sp (slitfunc_args img ycen lambda_sp lambda_sf osample) = ma_sum_axis0 img"
  by (simp_all add: slitfunc_args_def Let_def)

lemma curved_args_buffers:
  "ca_mask_out (curved_args_of img ycen tilt shear lambda_sp lambda_sf osample y_lower_lim dx)
     = replicate (im_nrows img) (replicate (im_ncols img) 1)"
  "ca_mask (curved_args_of img ycen tilt shear lambda_sp lambda_sf osample y_lower_lim dx)
     = tabulate2 (im_nrows img) (im_ncols img) (int_mask img)"
  "ca_img (curved_args_of img ycen tilt shear lambda_sp lambda_sf osample y_lower_lim dx)
     = tabulate2 (im_nrows img) (im_ncols img) (clean_img img)"
  "ca_pix_unc (curved_args_of img ycen tilt shear lambda_sp lambda_sf osample y_lower_lim dx)
     = tabulate2 (im_nrows img) (im_ncols img) (curved_pix_unc img)"
  "ca_sp (curved_args_of img ycen tilt shear lambda_sp lambda_sf osample y_lower_lim dx)
     = clean_sp img"
  "ca_sl (curved_args_of img ycen tilt shear lambda_sp lambda_sf osample y_lower_lim dx)
     = zeros (nat (osample * (int (im_nrows img) + 1) + 1))"
  by (simp_all add: curved_args_of_def Let_def)

lemma length_sum_axis0 [simp]: "length (sum_axis0 m n a) = n"
  by (simp add: sum_axis0_def)

lemma length_clean_sp [simp]: "length (clean_sp img) = im_ncols img"
  by (simp add: clean_sp_def)

lemma length_zeros [simp]: "length (zeros n) = n"
  by (simp add: zeros_def)

lemma tabulate2_nth:
  "i < m \<Longrightarrow> j < n \<Longrightarrow> tabulate2 m n f ! i ! j = f i j"
  by (simp add: tabulate2_def)

lemma length_assign_head: "length (assign_head k v xs) = length xs"
  by (simp add: assign_head_def)

lemma length_assign_tail: "length (assign_tail k v xs) = length xs"
  by (simp add: assign_tail_def)

lemma length_trim_edges: "length (trim_edges dx sp) = length sp"
  by (simp add: trim_edges_def length_assign_head length_assign_tail)

lemma nth_assign_head:
  "i < length xs \<Longrightarrow> assign_head k v xs ! i = (if i < k then v else xs ! i)"
  by (auto simp: assign_head_def nth_append)

lemma nth_assign_tail:
  assumes "i < length xs"
  shows "assign_tail k v xs ! i = (if length xs - k \<le> i then v else xs ! i)"
proof (cases "length xs - k \<le> i")
  case True
  with assms have "i - (length xs - k) < min k (length xs)" by arith
  with True show ?thesis by (simp add: assign_tail_def nth_append)
next
  case False
  then show ?thesis by (simp add: assign_tail_def nth_append)
qed

lemma nth_trim_edges:
  assumes "0 < dx" and "i < length sp" and "int i < dx \<or> int (length sp) - dx \<le> int i"
  shows "trim_edges dx sp ! i = Fin 0"
proof -
  have "length sp - nat dx \<le> i \<or> i < nat dx"
    using assms by arith
  then show ?thesis
    using assms(1,2)
    by (auto simp: trim_edges_def nth_assign_tail nth_assign_head length_assign_head)
qed

lemma flt_zero_not_fge: "flt a (Fin 0) \<Longrightarrow> \<not> fge a (Fin 0)"
  by (cases a) (auto simp: fge_def)

subsection \<open>The example call\<close>

lemma example_checks:
  "curved_checks example_img [Fin (3/2), Fin (7/4)]
     (full_or_asarray (im_ncols example_img) (Scalar (Fin (3/2))))
     (full_or_asarray (im_ncols example_img) (Array [Fin 0, Fin (1/4)])) (Fin 0) (Fin (1/8)) 2 = None"
  by (simp add: curved_checks_def fge_def example_img_def numeral_2_eq_2)

lemma example_y_lower_lim: "np_min (map astype_c_int [Fin (3/2), Fin (7/4)]) = Inr 1"
  by (simp add: trunc_def)

lemma wrap_int_id:
  "- (2 ^ (b - 1)) \<le> n \<Longrightarrow> n < 2 ^ (b - 1) \<Longrightarrow> 0 < b \<Longrightarrow> wrap_int b n = n"
proof -
  assume n: "- (2 ^ (b - 1)) \<le> n" "n < 2 ^ (b - 1)" and b: "0 < b"
  from b have "(2::int) ^ b = 2 * 2 ^ (b - 1)"
    by (metis power_minus_mult mult.commute)
  with n have "0 \<le> n + 2 ^ (b - 1)" "n + 2 ^ (b - 1) < 2 ^ b" by simp_all
  then have "(n + 2 ^ (b - 1)) mod 2 ^ b = n + 2 ^ (b - 1)" by simp
  then show ?thesis by (simp add: wrap_int_def)
qed

lemma wrap_int_small:
  "\<bar>n\<bar> < 2147483648 \<Longrightarrow> wrap_int (int_bits v) n = n"
  by (cases v) (simp_all add: wrap_int_id)

lemma curvature_stop_small:
  "int nrows + 1 - y_lower_lim < 2147483648 \<Longrightarrow> - 2147483648 < int nrows + 1 - y_lower_lim
     \<Longrightarrow> int nrows + 1 < 2147483648
     \<Longrightarrow> curvature_stop v nrows y_lower_lim = Inr (int nrows + 1 - y_lower_lim)"
  by (cases v) (simp_all add: curvature_stop_def wrap_int_id)

lemma example_dx:
  "curvature_dx v (full_or_asarray (im_ncols example_img) (Scalar (Fin (3/2))))
     (full_or_asarray (im_ncols example_img) (Array [Fin 0, Fin (1/4)]))
     (im_nrows example_img) 1 = Inr 2"
proof -
  have stop: "curvature_stop v (im_nrows example_img) 1 = Inr 1"
    using curvature_stop_small [of "im_nrows example_img" 1 v] by (simp add: example_img_def)
  have yy: "curvature_yy 1 1 = [- 1, 0]"
    by (simp add: curvature_yy_def arange_def neg_int32_def INT_MIN_def upto.simps)
  have yy2: "curvature_yy2 v [- 1, 0] = [1, 0]"
    by (simp add: curvature_yy2_def wrap_int_small)
  have t: "full_or_asarray (im_ncols example_img) (Scalar (Fin (3/2))) = [Fin (3/2), Fin (3/2)]"
    by (simp add: example_img_def numeral_2_eq_2)
  have m: "curvature_max [Fin (3/2), Fin (3/2)] [Fin 0, Fin (1/4)] [- 1, 0] [1, 0] = Inr (Fin (3/2))"
    by (simp add: curvature_max_def einsum_ij_def add2_def np_max2_def to_double_def fmax_def
        round64_eval)
  show ?thesis
    unfolding curvature_dx_def stop t by (simp add: yy yy2 m trunc_def)
qed

lemma example_curved_call:
  "slitfunc_curved v K example_img [Fin (3/2), Fin (7/4)]
       (Scalar (Fin (3/2))) (Array [Fin 0, Fin (1/4)]) (Fin 0) (Fin (1/8)) 2 =
     (Inr (curved_result_of
            (curved_args_of example_img [Fin (3/2), Fin (7/4)]
                  (full_or_asarray (im_ncols example_img) (Scalar (Fin (3/2))))
                  (full_or_asarray (im_ncols example_img) (Array [Fin 0, Fin (1/4)]))
                  (Fin 0) (Fin (1/8)) 2 1 2) 2
            (K (curved_args_of example_img [Fin (3/2), Fin (7/4)]
                  (full_or_asarray (im_ncols example_img) (Scalar (Fin (3/2))))
                  (full_or_asarray (im_ncols example_img) (Array [Fin 0, Fin (1/4)]))
                  (Fin 0) (Fin (1/8)) 2 1 2))),
      caller_after_call example_img
            (K (curved_args_of example_img [Fin (3/2), Fin (7/4)]
                  (full_or_asarray (im_ncols example_img) (Scalar (Fin (3/2))))
                  (full_or_asarray (im_ncols example_img) (Array [Fin 0, Fin (1/4)]))
                  (Fin 0) (Fin (1/8)) 2 1 2)))"
  by (rule slitfunc_curved_eq [OF example_checks example_y_lower_lim example_dx])

lemma example_vert_call:
  "slitfunc K example_img [Fin (3/2), Fin (7/4)] (Fin 0) (Fin (1/8)) 2 =
     Inr (slitfunc_result (slitfunc_args example_img [Fin (3/2), Fin (7/4)] (Fin 0) (Fin (1/8)) 2)
            (K (slitfunc_args example_img [Fin (3/2), Fin (7/4)] (Fin 0) (Fin (1/8)) 2)))"
  by (simp add: slitfunc_def fge_def example_img_def)

lemma example_vert_flags:
  "tabulate2 1 2 (vo_mask (idle_vert (slitfunc_args example_img [Fin (3/2), Fin (7/4)] (Fin 0) (Fin (1/8)) 2)))
     = [[0, 1]]"
  by (simp add: slitfunc_args_def idle_vert_def tabulate2_def
      example_img_def getmaskarray_def upt_conv_Cons Let_def)

subsection \<open>The cleaned image\<close>

lemma finite_mask_clipped: "finite_mask img i j \<Longrightarrow> clipped_mask img i j"
  by (simp add: clipped_mask_def)

lemma clipped_mask_iff:
  "clipped_mask img i j \<longleftrightarrow>
     getmaskarray img i j \<or> \<not> isfinite (im_data img i j)
     \<or> fgt (fabs (guess_residual img i j)) (fmul (Fin 6) (guess_dev img))"
  by (auto simp: clipped_mask_def finite_mask_def)

lemma clean_img_eq:
  "clean_img img i j = (if clipped_mask img i j then Fin 0 else im_data img i j)"
  by (auto simp: clean_img_def set_zero_def masked_img_def dest: finite_mask_clipped)

lemma clean_img_finite: "\<exists>x. clean_img img i j = Fin x"
proof (cases "clipped_mask img i j")
  case True
  then show ?thesis by (simp add: clean_img_eq)
next
  case False
  then have "isfinite (im_data img i j)" by (simp add: clipped_mask_iff)
  then obtain x where "im_data img i j = Fin x" by (cases "im_data img i j") auto
  with False show ?thesis by (simp add: clean_img_eq)
qed

lemma nonfinite_rejected:
  "\<not> isfinite (im_data img i j) \<Longrightarrow> int_mask img i j = 0 \<and> clean_img img i j = Fin 0"
  by (simp add: int_mask_def clean_img_eq clipped_mask_iff)

lemma pairwise_sum_short: "length a < 8 \<Longrightarrow> pairwise_sum a = seq_sum a"
  by simp

lemma np_sum_short: "length a < 8 \<Longrightarrow> np_sum a = fadd (Fin 0) (seq_sum a)"
  by (simp add: np_sum_def)

lemmas guess_eval = masked_img_def finite_mask_def getmaskarray_def set_zero_def sum_axis0_def
  median_filter5_def reflect_index_def sort_d_def fle_def fge_def guess_sp_def guess_sl_def
  median_axis1_def np_median_def guess_model_def guess_residual_def guess_dev_def np_std_def
  tabulate2_def fsub_def fgt_def upt_conv_Cons Let_def np_sum_short seq_sum_def to_double_def
  round64_eval

lemma example_img_guess:
  "guess_dev example_img = Fin 3"
  "guess_residual example_img 0 0 = Fin 3"
  "guess_residual example_img 0 (Suc 0) = Fin (- 3)"
  by (simp_all add: example_img_def guess_eval)

lemma example_img_clipped:
  "clipped_mask example_img 0 0" "\<not> clipped_mask example_img 0 (Suc 0)"
  by (simp_all add: clipped_mask_iff example_img_guess fgt_def round64_eval)
     (simp_all add: example_img_def getmaskarray_def)

lemma example_neg_guess:
  "guess_dev example_neg = Fin 0"
  "guess_residual example_neg 0 0 = Fin 0"
  "\<not> clipped_mask example_neg 0 0"
  by (simp_all add: example_neg_def guess_eval clipped_mask_def)

lemma example_nan_guess:
  "guess_dev example_nan = Fin 3"
  "guess_residual example_nan 0 0 = Fin 3"
  "guess_residual example_nan 0 (Suc 0) = Fin (- 3)"
  by (simp_all add: example_nan_def guess_eval)

subsection \<open>The fractional part of the trace\<close>

lemma to_double_int32: "\<bar>n\<bar> \<le> 2147483648 \<Longrightarrow> to_double n = Fin (of_int n)"
  unfolding to_double_def by (rule round64_int) simp

lemma fractional_part_shift:
  assumes "y = Fin x" and "0 \<le> x" and "0 \<le> n" and "x + of_int n < 2147483648"
  shows "fsub (Fin (x + of_int n)) (to_double (astype_c_int (Fin (x + of_int n))))
         = fsub y (to_double (astype_c_int y))"
proof -
  have nn: "0 \<le> x + of_int n" using assms(2,3) by simp
  have lt: "x < 2147483648" using assms(3,4) by simp
  have fl: "\<lfloor>x + of_int n\<rfloor> = \<lfloor>x\<rfloor> + n" by simp
  have "real_of_int (\<lfloor>x\<rfloor> + n) \<le> x + of_int n" by simp
  with assms(4) have "real_of_int (\<lfloor>x\<rfloor> + n) < 2147483648" by linarith
  then have "\<lfloor>x\<rfloor> + n \<le> 2147483648" by linarith
  moreover have "0 \<le> \<lfloor>x\<rfloor>" using assms(2) by simp
  ultimately have a: "\<bar>\<lfloor>x\<rfloor> + n\<bar> \<le> 2147483648" "\<bar>\<lfloor>x\<rfloor>\<bar> \<le> 2147483648"
    using assms(3) by linarith+
  have "x + of_int n - of_int (\<lfloor>x\<rfloor> + n) = x - of_int \<lfloor>x\<rfloor>" by simp
  then show ?thesis
    using nn lt assms(1,2,4) fl
    by (simp add: fsub_def trunc_def to_double_int32 [OF a(1)] to_double_int32 [OF a(2)])
qed

subsection \<open>The padding width\<close>

lemma spec_padding_tenth: "spec_padding [tenth] [0] [- 10, - 9] = 2"
  by (simp add: spec_padding_def displacement_def tenth_def)

lemma spec_padding_one: "spec_padding [1] [0] [0, 1] = 1"
  by (simp add: spec_padding_def displacement_def)

lemma fold_fmax_nonfinite:
  "(\<not> isfinite x \<or> (\<exists>b\<in>set xs. \<not> isfinite b)) \<Longrightarrow> NInf \<notin> set (x # xs)
     \<Longrightarrow> fold fmax xs x = PInf \<or> fold fmax xs x = NaN"
proof (induction xs arbitrary: x)
  case Nil
  then show ?case by (cases x) auto
next
  case (Cons b xs)
  have "\<not> isfinite (fmax b x) \<or> (\<exists>c\<in>set xs. \<not> isfinite c)"
    using Cons.prems by (cases x; cases b) (auto simp: fmax_def)
  moreover have "NInf \<notin> set (fmax b x # xs)"
    using Cons.prems by (cases x; cases b) (auto simp: fmax_def)
  ultimately show ?case using Cons.IH [of "fmax b x"] by simp
qed

lemma rounded_Some:
  assumes "rounded_displacement t s y = Some d"
  shows "fadd (fmul (Fin t) (Fin (of_int y))) (fmul (Fin s) (Fin (of_int (y * y)))) = Fin d"
  using assms
  by (cases "round64 (t * of_int y)"; cases "round64 (s * (of_int y)\<^sup>2)";
      cases "round64 (real_of (round64 (t * of_int y)) + real_of (round64 (s * (of_int y)\<^sup>2)))")
     (auto simp: rounded_displacement_def power2_eq_square)

lemma rounded_None:
  assumes "rounded_displacement t s y = None"
  shows "\<not> isfinite (fadd (fmul (Fin t) (Fin (of_int y))) (fmul (Fin s) (Fin (of_int (y * y)))))"
  using assms
  by (cases "round64 (t * of_int y)"; cases "round64 (s * (of_int y)\<^sup>2)";
      cases "round64 (real_of (round64 (t * of_int y)) + real_of (round64 (s * (of_int y)\<^sup>2)))")
     (auto simp: rounded_displacement_def power2_eq_square)

lemma isfinite_iff: "isfinite d \<longleftrightarrow> d = Fin (real_of d)"
  by (cases d) auto

lemma list_all_isfinite: "list_all isfinite xs \<Longrightarrow> xs = map Fin (map real_of xs)"
  by (induction xs) (auto simp: isfinite_iff)

lemma trunc_of_int: "trunc (of_int z) = z"
  by (simp add: trunc_def)

lemma fold_fmax_Fin: "fold fmax (map Fin xs) (Fin x) = Fin (fold max xs x)"
  by (induction xs arbitrary: x) (auto simp: fmax_def max_def)

lemma np_max2_Fin:
  assumes "concat a = map Fin (x # xs)"
  shows "np_max2 a = Inr (Fin (Max (set (x # xs))))"
proof -
  have "Max (set (x # xs)) = fold max xs x" by (rule Max.set_eq_fold)
  with assms show ?thesis by (simp add: np_max2_def fold_fmax_Fin)
qed

lemma np_min_Inr: "np_min xs = Inr m \<Longrightarrow> xs \<noteq> []"
  by (cases xs) auto

lemma small_of_square:
  fixes z :: int
  assumes "z * z < 2147483648"
  shows "\<bar>z\<bar> < 46341"
proof (rule ccontr)
  assume "\<not> \<bar>z\<bar> < 46341"
  then have "46341 \<le> \<bar>z\<bar>" by simp
  then have "46341 * 46341 \<le> \<bar>z\<bar> * \<bar>z\<bar>" by (intro mult_mono) simp_all
  also have "\<dots> = z * z" by (simp add: abs_mult_self_eq)
  finally show False using assms by simp
qed

lemma square_between:
  fixes y :: int
  assumes "a * a < B" and "b * b < B" and "- a \<le> y" and "y \<le> b"
  shows "y * y < B"
proof (cases "0 \<le> y")
  case True
  with assms(4) have "y * y \<le> b * b" by (intro mult_mono) simp_all
  with assms(2) show ?thesis by simp
next
  case False
  with assms(3) have "0 \<le> - y" "- y \<le> a" by simp_all
  then have "(- y) * (- y) \<le> a * a" by (intro mult_mono) simp_all
  with assms(1) show ?thesis by simp
qed

lemma curvature_max_rows:
  assumes "length T = length S"
      and "\<And>y. y \<in> set yy \<Longrightarrow> to_double y = Fin (of_int y) \<and> to_double (sq y) = Fin (of_int (y * y))"
  shows "curvature_max T S yy (map sq yy) =
           np_max2 (map (\<lambda>i. map (\<lambda>y. fabs (fadd (fmul (T ! i) (Fin (of_int y)))
                                                    (fmul (S ! i) (Fin (of_int (y * y)))))) yy)
                        [0..<length T])"
proof -
  have row: "map2 fadd (map (\<lambda>y. fmul t y) (map to_double yy))
                       (map (\<lambda>y. fmul s y) (map to_double (map sq yy)))
        = map (\<lambda>y. fadd (fmul t (Fin (of_int y))) (fmul s (Fin (of_int (y * y))))) yy" for t s
    using assms(2) by (induction yy) simp_all
  have "map (map fabs) (add2 (einsum_ij T (map to_double yy)) (einsum_ij S (map to_double (map sq yy))))
        = map (\<lambda>i. map (\<lambda>y. fabs (fadd (fmul (T ! i) (Fin (of_int y)))
                                       (fmul (S ! i) (Fin (of_int (y * y)))))) yy) [0..<length T]"
  proof (rule nth_equalityI)
    show "length (map (map fabs) (add2 (einsum_ij T (map to_double yy))
                     (einsum_ij S (map to_double (map sq yy)))))
          = length (map (\<lambda>i. map (\<lambda>y. fabs (fadd (fmul (T ! i) (Fin (of_int y)))
                                       (fmul (S ! i) (Fin (of_int (y * y)))))) yy) [0..<length T])"
      using assms(1) by (simp add: add2_def einsum_ij_def)
  next
    fix i
    assume "i < length (map (map fabs) (add2 (einsum_ij T (map to_double yy))
                     (einsum_ij S (map to_double (map sq yy)))))"
    then have i: "i < length T" "i < length S"
      using assms(1) by (simp_all add: add2_def einsum_ij_def)
    then show "map (map fabs) (add2 (einsum_ij T (map to_double yy))
                     (einsum_ij S (map to_double (map sq yy)))) ! i
          = map (\<lambda>i. map (\<lambda>y. fabs (fadd (fmul (T ! i) (Fin (of_int y)))
                                       (fmul (S ! i) (Fin (of_int (y * y)))))) yy) [0..<length T] ! i"
      using row [of "T ! i" "S ! i"] by (simp add: add2_def einsum_ij_def comp_def)
  qed
  then show ?thesis by (simp add: curvature_max_def)
qed


lemma curvature_dx_rows:
  assumes "y_lower_lim * y_lower_lim < 2147483648"
      and "(int nrows - y_lower_lim) * (int nrows - y_lower_lim) < 2147483648"
      and "length T = length S"
  shows "curvature_dx v T S nrows y_lower_lim =
           (case np_max2 (map (\<lambda>i. map (\<lambda>y. fabs (fadd (fmul (T ! i) (Fin (of_int y)))
                                                    (fmul (S ! i) (Fin (of_int (y * y))))))
                                     [- y_lower_lim .. int nrows - y_lower_lim])
                              [0..<length T]) of
              Inl e \<Rightarrow> Inl e
            | Inr m \<Rightarrow> py_int (fceil m))"
proof -
  let ?yy = "[- y_lower_lim .. int nrows - y_lower_lim]"
  from small_of_square [OF assms(1)] small_of_square [OF assms(2)]
  have b: "\<bar>y_lower_lim\<bar> < 46341" "\<bar>int nrows - y_lower_lim\<bar> < 46341" .
  then have stop: "curvature_stop v nrows y_lower_lim = Inr (int nrows + 1 - y_lower_lim)"
    by (intro curvature_stop_small) linarith+
  from b have yy: "curvature_yy y_lower_lim (int nrows + 1 - y_lower_lim) = ?yy"
    by (simp add: curvature_yy_def arange_def neg_int32_def INT_MIN_def)
  have sq: "y * y < 2147483648" if "y \<in> set ?yy" for y
    using square_between [OF assms(1,2), of y] that by simp
  have yy2: "curvature_yy2 v ?yy = map (\<lambda>y. y * y) ?yy"
    unfolding curvature_yy2_def
  proof (rule map_cong [OF refl])
    fix y assume "y \<in> set ?yy"
    from sq [OF this] have "\<bar>y * y\<bar> < 2147483648" by simp
    then show "wrap_int (int_bits v) (y * y) = y * y" by (rule wrap_int_small)
  qed
  have conv: "to_double y = Fin (of_int y) \<and> to_double (y * y) = Fin (of_int (y * y))"
    if "y \<in> set ?yy" for y
  proof -
    from that have "- y_lower_lim \<le> y" "y \<le> int nrows - y_lower_lim" by simp_all
    with b have "\<bar>y\<bar> \<le> 2147483648" by linarith
    moreover from sq [OF that] have "\<bar>y * y\<bar> \<le> 2147483648" by simp
    ultimately show ?thesis using to_double_int32 by blast
  qed
  show ?thesis
    unfolding curvature_dx_def stop sum.case yy yy2
    by (simp only: curvature_max_rows [OF assms(3) conv])
qed

lemma curvature_dx_finite:
  assumes "y_lower_lim * y_lower_lim < 2147483648"
      and "(int nrows - y_lower_lim) * (int nrows - y_lower_lim) < 2147483648"
      and "length ts = length ss" and "ts \<noteq> []"
      and "\<And>i y. i < length ts \<Longrightarrow> y \<in> {- y_lower_lim .. int nrows - y_lower_lim}
              \<Longrightarrow> rounded_displacement (ts ! i) (ss ! i) y \<noteq> None"
  shows "curvature_dx v (map Fin ts) (map Fin ss) nrows y_lower_lim =
           Inr \<lceil>Max {\<bar>the (rounded_displacement (ts ! i) (ss ! i) y)\<bar> | i y.
                      i < length ts \<and> y \<in> {- y_lower_lim .. int nrows - y_lower_lim}}\<rceil>"
    and "0 \<le> \<lceil>Max {\<bar>the (rounded_displacement (ts ! i) (ss ! i) y)\<bar> | i y.
                      i < length ts \<and> y \<in> {- y_lower_lim .. int nrows - y_lower_lim}}\<rceil>"
proof -
  let ?yy = "[- y_lower_lim .. int nrows - y_lower_lim]"
  let ?d = "\<lambda>i y. \<bar>the (rounded_displacement (ts ! i) (ss ! i) y)\<bar>"
  let ?D = "concat (map (\<lambda>i. map (?d i) ?yy) [0..<length ts])"
  let ?S = "{?d i y | i y. i < length ts \<and> y \<in> {- y_lower_lim .. int nrows - y_lower_lim}}"
  have set: "set ?D = ?S" by auto blast
  have "- y_lower_lim \<le> int nrows - y_lower_lim" by simp
  then have "?yy \<noteq> []" by (simp add: upto.simps)
  with assms(4) have "?D \<noteq> []" by (cases ts; cases ?yy) (simp_all add: upt_conv_Cons)
  then obtain x xs where D: "?D = x # xs" by (cases ?D) auto
  have entry: "fabs (fadd (fmul (map Fin ts ! i) (Fin (of_int y)))
                          (fmul (map Fin ss ! i) (Fin (of_int (y * y))))) = Fin (?d i y)"
    if "i < length ts" "y \<in> set ?yy" for i y
  proof -
    from assms(5) [of i y] that obtain d where d: "rounded_displacement (ts ! i) (ss ! i) y = Some d"
      by auto
    from rounded_Some [OF d] that assms(3) d show ?thesis by simp
  qed
  have "map (\<lambda>i. map (\<lambda>y. fabs (fadd (fmul (map Fin ts ! i) (Fin (of_int y)))
                                    (fmul (map Fin ss ! i) (Fin (of_int (y * y)))))) ?yy)
            [0..<length (map Fin ts)]
        = map (\<lambda>i. map (\<lambda>y. Fin (?d i y)) ?yy) [0..<length ts]"
    using entry by (simp cong: map_cong)
  moreover have "concat (map (\<lambda>i. map (\<lambda>y. Fin (?d i y)) ?yy) [0..<length ts]) = map Fin ?D"
    by (induction "[0..<length ts]") (simp_all add: map_concat comp_def)
  ultimately have "np_max2 (map (\<lambda>i. map (\<lambda>y. fabs (fadd (fmul (map Fin ts ! i) (Fin (of_int y)))
                                    (fmul (map Fin ss ! i) (Fin (of_int (y * y)))))) ?yy)
            [0..<length (map Fin ts)]) = Inr (Fin (Max (set ?D)))"
    unfolding D by (simp only: np_max2_Fin)
  moreover have "length (map Fin ts) = length (map Fin ss)" using assms(3) by simp
  ultimately have "curvature_dx v (map Fin ts) (map Fin ss) nrows y_lower_lim = Inr \<lceil>Max (set ?D)\<rceil>"
    by (simp only: curvature_dx_rows [OF assms(1,2)] sum.case py_int.simps fceil.simps trunc_of_int)
  then show "curvature_dx v (map Fin ts) (map Fin ss) nrows y_lower_lim = Inr \<lceil>Max ?S\<rceil>"
    unfolding set .
  have "x \<in> set ?D" by (simp add: D)
  then have "0 \<le> x" unfolding set by auto
  moreover have "x \<le> Max (set ?D)" by (rule Max_ge) (simp_all add: D)
  ultimately have "0 \<le> \<lceil>Max (set ?D)\<rceil>" by (smt (verit) zero_le_ceiling)
  then show "0 \<le> \<lceil>Max ?S\<rceil>" unfolding set .
qed


lemma fabs_not_NInf: "fabs d \<noteq> NInf" "NInf \<noteq> fabs d"
  by (cases d; simp)+

lemma curvature_dx_overflow:
  assumes "y_lower_lim * y_lower_lim < 2147483648"
      and "(int nrows - y_lower_lim) * (int nrows - y_lower_lim) < 2147483648"
      and "length ts = length ss"
      and "i < length ts" and "y \<in> {- y_lower_lim .. int nrows - y_lower_lim}"
      and "rounded_displacement (ts ! i) (ss ! i) y = None"
  shows "curvature_dx v (map Fin ts) (map Fin ss) nrows y_lower_lim
           = Inl (OverflowError ''cannot convert float infinity to integer'')
       \<or> curvature_dx v (map Fin ts) (map Fin ss) nrows y_lower_lim
           = Inl (ValueError ''cannot convert float NaN to integer'')"
proof -
  let ?yy = "[- y_lower_lim .. int nrows - y_lower_lim]"
  define e where "e = (\<lambda>i y. fabs (fadd (fmul (map Fin ts ! i) (Fin (of_int y)))
                           (fmul (map Fin ss ! i) (Fin (of_int (y * y))))))"
  let ?M = "map (\<lambda>i. map (e i) ?yy) [0..<length (map Fin ts)]"
  have l: "length (map Fin ts) = length (map Fin ss)" using assms(3) by simp
  have "\<not> isfinite (fadd (fmul (Fin (ts ! i)) (Fin (of_int y))) (fmul (Fin (ss ! i)) (Fin (of_int (y * y)))))"
    by (rule rounded_None) fact
  then have "\<not> isfinite (fabs (fadd (fmul (Fin (ts ! i)) (Fin (of_int y)))
                                    (fmul (Fin (ss ! i)) (Fin (of_int (y * y))))))"
    by (cases "fadd (fmul (Fin (ts ! i)) (Fin (of_int y))) (fmul (Fin (ss ! i)) (Fin (of_int (y * y))))")
       simp_all
  then have "\<not> isfinite (e i y)"
    using assms(3,4) by (simp add: e_def)
  moreover have "e i y \<in> set (concat ?M)"
    using assms(4,5) by (auto intro!: bexI [of _ i])
  ultimately have bad: "\<exists>b \<in> set (concat ?M). \<not> isfinite b" by blast
  then obtain x xs where M: "concat ?M = x # xs" by (cases "concat ?M") auto
  have "NInf \<notin> set (concat ?M)" by (auto simp: e_def fabs_not_NInf)
  with bad have "fold fmax xs x = PInf \<or> fold fmax xs x = NaN"
    unfolding M by (intro fold_fmax_nonfinite) auto
  moreover have "np_max2 ?M = Inr (fold fmax xs x)" unfolding np_max2_def M by simp
  ultimately have "np_max2 ?M = Inr PInf \<or> np_max2 ?M = Inr NaN" by auto
  then show ?thesis
    unfolding curvature_dx_rows [OF assms(1,2) l] e_def by auto
qed


lemma tenth_products:
  "round64 (tenth * 10) = Fin 1"
  "round64 (tenth * 9) = Fin (8106479329266893 / 9007199254740992)"
proof -
  have "round64 (tenth * 10) = Fin (of_int 4503599627370496 * 2 powi (0 - 52))"
    by (rule round64_value) (simp_all add: tenth_def round_half_even_def power_int_minus)
  then show "round64 (tenth * 10) = Fin 1" by (simp add: power_int_minus)
  have "round64 (tenth * 9) = Fin (of_int 8106479329266893 * 2 powi (- 1 - 52))"
    by (rule round64_value) (simp_all add: tenth_def round_half_even_def power_int_minus)
  then show "round64 (tenth * 9) = Fin (8106479329266893 / 9007199254740992)"
    by (simp add: power_int_minus)
qed

lemma tenth_dx: "curvature_dx v [Fin tenth] [Fin 0] 1 10 = Inr 1"
proof -
  have d: "round64 (8106479329266893 / 9007199254740992)
             = Fin (8106479329266893 / 9007199254740992)"
    using round64_dyadic [of 8106479329266893 53] by simp
  show ?thesis
    by (subst curvature_dx_rows)
       (simp_all add: upto.simps np_max2_def tenth_products d round64_0 round64_minus round64_1
          fmax_def trunc_def)
qed

lemma huge_products:
  "round64 huge = Fin huge" "round64 (huge * 2) = PInf" "0 < huge"
proof -
  have "huge = of_int (2 ^ 52) * 2 powi 971" by (simp add: huge_def)
  then show "round64 huge = Fin huge"
    using round64_exact [of "2 ^ 52" 971] by simp
  have "overflow_threshold \<le> \<bar>huge * 2\<bar>" by (simp add: huge_def overflow_threshold_def)
  then show "round64 (huge * 2) = PInf"
    using round64_overflow [of "huge * 2"] by (simp add: huge_def)
  show "0 < huge" by (simp add: huge_def)
qed

lemma huge_dx:
  "curvature_dx v [Fin huge] [Fin 0] 2 0
     = Inl (OverflowError ''cannot convert float infinity to integer'')"
  using huge_products(3)
  by (subst curvature_dx_rows)
     (simp_all add: upto.simps np_max2_def huge_products round64_0 fmax_def)

lemma one_dx: "curvature_dx v [Fin 1] [Fin 0] 2 0 = Inr 2"
  by (subst curvature_dx_rows)
     (simp_all add: upto.simps np_max2_def round64_eval fmax_def trunc_def)

subsection \<open>C1: the returned mask\<close>

text \<open>
  C1 says that the returned mask is true exactly where the pixel is good (was used in the
  solve). Both wrappers hand the native code an integer flag per pixel that is 1 for a
  pixel to use and 0 for a rejected one (line 101 with 102, line 229), and both return
  the flags inverted: line 130 is \<^verbatim>\<open>~mask.astype(bool)\<close>, line 293 is
  \<^verbatim>\<open>mask_out == 0\<close>. On the example image, whose first pixel is masked, the native
  routine leaves the flags at 0 and 1 and \<^verbatim>\<open>slitfunc\<close> returns true and false: true for
  the rejected pixel, false for the one that was used.
\<close>

theorem C1_accept_mask_counterexample:
  "map_sum id r_mask (slitfunc idle_vert example_img [Fin (3/2), Fin (7/4)] (Fin 0) (Fin (1/8)) 2)
       = Inr [[True, False]]
   \<and> tabulate2 1 2 (getmaskarray example_img) = [[True, False]]
   \<and> tabulate2 1 2 (vo_mask (idle_vert
         (slitfunc_args example_img [Fin (3/2), Fin (7/4)] (Fin 0) (Fin (1/8)) 2))) = [[0, 1]]"
proof -
  have n: "im_nrows example_img = 1" "im_ncols example_img = 2"
    by (simp_all add: example_img_def)
  have "va_mask (slitfunc_args example_img [Fin (3/2), Fin (7/4)] (Fin 0) (Fin (1/8)) 2)
          = [[0, 1]]"
    by (simp add: slitfunc_args_def Let_def tabulate2_def example_img_def getmaskarray_def
        upt_conv_Cons)
  then have "written2 (va_mask (slitfunc_args example_img [Fin (3/2), Fin (7/4)] (Fin 0) (Fin (1/8)) 2)) f
          = tabulate2 1 2 f" for f :: "nat \<Rightarrow> nat \<Rightarrow> int"
    by (simp add: written2_def tabulate2_def upt_conv_Cons)
  then have "r_mask (slitfunc_result
            (slitfunc_args example_img [Fin (3/2), Fin (7/4)] (Fin 0) (Fin (1/8)) 2)
            (idle_vert (slitfunc_args example_img [Fin (3/2), Fin (7/4)] (Fin 0) (Fin (1/8)) 2)))
        = map (map (\<lambda>v. \<not> (v \<noteq> 0))) (tabulate2 1 2 (vo_mask (idle_vert
             (slitfunc_args example_img [Fin (3/2), Fin (7/4)] (Fin 0) (Fin (1/8)) 2))))"
    by (simp add: slitfunc_result_def)
  also have "\<dots> = [[True, False]]"
    unfolding example_vert_flags by simp
  finally have a: "map_sum id r_mask
        (slitfunc idle_vert example_img [Fin (3/2), Fin (7/4)] (Fin 0) (Fin (1/8)) 2)
       = Inr [[True, False]]"
    by (simp add: example_vert_call)
  have b: "tabulate2 1 2 (getmaskarray example_img) = [[True, False]]"
    by (simp add: tabulate2_def example_img_def getmaskarray_def upt_conv_Cons)
  from a b example_vert_flags show ?thesis by blast
qed

text \<open>
  C1, amended. For every call of either wrapper that returns, the flag handed to the
  native code is 0 for a pixel the wrapper rejects and 1 for every other pixel, and the
  returned mask is true exactly where the native code's flag is 0 when it returns: true
  marks a rejected pixel, as in a numpy masked array.
\<close>

theorem C1_returned_mask_flags_rejected:
  "(slitfunc K1 img ycen lambda_sp lambda_sf osample = Inr r \<longrightarrow>
      (\<forall>i < im_nrows img. \<forall>j < im_ncols img.
          va_mask (slitfunc_args img ycen lambda_sp lambda_sf osample) ! i ! j
            = (if getmaskarray img i j then 0 else 1)
        \<and> r_mask r ! i ! j
            = (vo_mask (K1 (slitfunc_args img ycen lambda_sp lambda_sf osample)) i j = 0)))
   \<and> (fst (slitfunc_curved v K2 img ycen tilt shear lambda_sp lambda_sf osample) = Inr c
        \<and> np_min (map astype_c_int ycen) = Inr y_lower_lim
        \<and> curvature_dx v (full_or_asarray (im_ncols img) tilt) (full_or_asarray (im_ncols img) shear)
             (im_nrows img) y_lower_lim = Inr dx \<longrightarrow>
      (\<forall>i < im_nrows img. \<forall>j < im_ncols img.
          ca_mask (curved_args_of img ycen (full_or_asarray (im_ncols img) tilt)
                     (full_or_asarray (im_ncols img) shear) lambda_sp lambda_sf osample
                     y_lower_lim dx) ! i ! j
            = (if clipped_mask img i j then 0 else 1)
        \<and> c_mask c ! i ! j
            = (co_mask_out (K2 (curved_args_of img ycen (full_or_asarray (im_ncols img) tilt)
                     (full_or_asarray (im_ncols img) shear) lambda_sp lambda_sf osample
                     y_lower_lim dx)) i j = 0)))"
proof (intro conjI impI allI)
  fix i j
  assume ret: "slitfunc K1 img ycen lambda_sp lambda_sf osample = Inr r"
    and i: "i < im_nrows img" and j: "j < im_ncols img"
  from slitfunc_Inr [OF ret]
  have r: "r = slitfunc_result (slitfunc_args img ycen lambda_sp lambda_sf osample)
                 (K1 (slitfunc_args img ycen lambda_sp lambda_sf osample))"
    by simp
  from i j show "va_mask (slitfunc_args img ycen lambda_sp lambda_sf osample) ! i ! j
            = (if getmaskarray img i j then 0 else 1)"
    by (simp add: slitfunc_args_def Let_def tabulate2_nth)
  from i j show "r_mask r ! i ! j
            = (vo_mask (K1 (slitfunc_args img ycen lambda_sp lambda_sf osample)) i j = 0)"
    by (simp add: r slitfunc_result_def slitfunc_args_buffers)
next
  fix i j
  assume ret: "fst (slitfunc_curved v K2 img ycen tilt shear lambda_sp lambda_sf osample) = Inr c
        \<and> np_min (map astype_c_int ycen) = Inr y_lower_lim
        \<and> curvature_dx v (full_or_asarray (im_ncols img) tilt) (full_or_asarray (im_ncols img) shear)
             (im_nrows img) y_lower_lim = Inr dx"
    and i: "i < im_nrows img" and j: "j < im_ncols img"
  from slitfunc_curved_Inr [of v K2 img ycen tilt shear lambda_sp lambda_sf osample c] ret
  have c: "c = curved_result_of
              (curved_args_of img ycen (full_or_asarray (im_ncols img) tilt)
                     (full_or_asarray (im_ncols img) shear) lambda_sp lambda_sf osample
                     y_lower_lim dx) dx
              (K2 (curved_args_of img ycen (full_or_asarray (im_ncols img) tilt)
                     (full_or_asarray (im_ncols img) shear) lambda_sp lambda_sf osample
                     y_lower_lim dx))"
    by (auto simp: Let_def)
  from i j show "ca_mask (curved_args_of img ycen (full_or_asarray (im_ncols img) tilt)
                     (full_or_asarray (im_ncols img) shear) lambda_sp lambda_sf osample
                     y_lower_lim dx) ! i ! j
            = (if clipped_mask img i j then 0 else 1)"
    by (simp add: curved_args_of_def Let_def tabulate2_nth int_mask_def)
  from i j show "c_mask c ! i ! j
            = (co_mask_out (K2 (curved_args_of img ycen (full_or_asarray (im_ncols img) tilt)
                     (full_or_asarray (im_ncols img) shear) lambda_sp lambda_sf osample
                     y_lower_lim dx)) i j = 0)"
    by (simp add: c curved_result_of_def curved_args_buffers)
qed

theorem C1_returned_mask_flags_rejected_witness:
  "(\<exists>r. slitfunc idle_vert example_img [Fin (3/2), Fin (7/4)] (Fin 0) (Fin (1/8)) 2 = Inr r
      \<and> r_mask r ! 0 ! 1 = (vo_mask (idle_vert
            (slitfunc_args example_img [Fin (3/2), Fin (7/4)] (Fin 0) (Fin (1/8)) 2)) 0 1 = 0))
   \<and> (\<exists>c. fst (slitfunc_curved Numpy2 idle_curved example_img [Fin (3/2), Fin (7/4)]
               (Scalar (Fin (3/2))) (Array [Fin 0, Fin (1/4)]) (Fin 0) (Fin (1/8)) 2) = Inr c
      \<and> c_mask c ! 0 ! 1 = (co_mask_out (idle_curved
            (curved_args_of example_img [Fin (3/2), Fin (7/4)]
               (full_or_asarray (im_ncols example_img) (Scalar (Fin (3/2))))
               (full_or_asarray (im_ncols example_img) (Array [Fin 0, Fin (1/4)]))
               (Fin 0) (Fin (1/8)) 2 1 2)) 0 1 = 0))"
proof -
  have n: "0 < im_nrows example_img" "1 < im_ncols example_img"
    by (simp_all add: example_img_def)
  obtain r where r: "slitfunc idle_vert example_img [Fin (3/2), Fin (7/4)] (Fin 0) (Fin (1/8)) 2 = Inr r"
    by (simp add: example_vert_call)
  obtain c where c: "fst (slitfunc_curved Numpy2 idle_curved example_img [Fin (3/2), Fin (7/4)]
               (Scalar (Fin (3/2))) (Array [Fin 0, Fin (1/4)]) (Fin 0) (Fin (1/8)) 2) = Inr c"
    by (simp add: example_curved_call)
  from C1_returned_mask_flags_rejected [THEN conjunct1, rule_format, OF r n]
  have a: "r_mask r ! 0 ! 1 = (vo_mask (idle_vert
            (slitfunc_args example_img [Fin (3/2), Fin (7/4)] (Fin 0) (Fin (1/8)) 2)) 0 1 = 0)"
    by blast
  from C1_returned_mask_flags_rejected [THEN conjunct2, rule_format,
         OF conjI [OF c conjI [OF example_y_lower_lim example_dx]] n]
  have b: "c_mask c ! 0 ! 1 = (co_mask_out (idle_curved
            (curved_args_of example_img [Fin (3/2), Fin (7/4)]
               (full_or_asarray (im_ncols example_img) (Scalar (Fin (3/2))))
               (full_or_asarray (im_ncols example_img) (Array [Fin 0, Fin (1/4)]))
               (Fin 0) (Fin (1/8)) 2 1 2)) 0 1 = 0)"
    by blast
  from r a c b show ?thesis by blast
qed

subsection \<open>C2: the caller's image array\<close>

text \<open>
  C2 says that \<^verbatim>\<open>slitfunc_curved\<close> leaves every pixel of the caller's image as it was.
  Lines 211 and 226 assign 0 through \<^verbatim>\<open>np.ma.getdata(img)\<close>, which shares the caller's
  buffer. On the example image the masked pixel holds 5 before the call and 0 after it.
\<close>

theorem C2_caller_image_counterexample:
  "im_data example_img 0 0 = Fin 5
   \<and> fst (slitfunc_curved Numpy2 idle_curved example_img [Fin (3/2), Fin (7/4)]
           (Scalar (Fin (3/2))) (Array [Fin 0, Fin (1/4)]) (Fin 0) (Fin (1/8)) 2)
       = Inr (curved_result_of
            (curved_args_of example_img [Fin (3/2), Fin (7/4)]
                  (full_or_asarray (im_ncols example_img) (Scalar (Fin (3/2))))
                  (full_or_asarray (im_ncols example_img) (Array [Fin 0, Fin (1/4)]))
                  (Fin 0) (Fin (1/8)) 2 1 2) 2
            (idle_curved (curved_args_of example_img [Fin (3/2), Fin (7/4)]
                  (full_or_asarray (im_ncols example_img) (Scalar (Fin (3/2))))
                  (full_or_asarray (im_ncols example_img) (Array [Fin 0, Fin (1/4)]))
                  (Fin 0) (Fin (1/8)) 2 1 2)))
   \<and> im_data (snd (slitfunc_curved Numpy2 idle_curved example_img [Fin (3/2), Fin (7/4)]
           (Scalar (Fin (3/2))) (Array [Fin 0, Fin (1/4)]) (Fin 0) (Fin (1/8)) 2)) 0 0 = Fin 0"
proof -
  have a: "im_data example_img 0 0 = Fin 5" by (simp add: example_img_def)
  have k: "\<not> require_shares (im_kind example_img)" by (simp add: example_img_def)
  have "im_data (caller_after_call example_img out) 0 0 = Fin 0" for out
    using k by (simp add: caller_after_call_def caller_before_call_def clean_img_eq example_img_clipped)
  with a show ?thesis by (simp add: example_curved_call)
qed

text \<open>
  C2, amended. \<^verbatim>\<open>slitfunc_curved\<close> writes into the caller's float64 image array. When
  the call returns and the native routine worked on a copy of the data (the image is a
  masked array, or a plain array that does not own its buffer), every pixel that was
  masked, non-finite or rejected by the clip at six standard deviations holds 0, and
  every other pixel holds the value it held before the call.
\<close>

theorem C2_caller_image_after_call:
  assumes "fst (slitfunc_curved v K img ycen tilt shear lambda_sp lambda_sf osample) = Inr c"
      and "\<not> require_shares (im_kind img)"
      and "i < im_nrows img" and "j < im_ncols img"
  shows "im_data (snd (slitfunc_curved v K img ycen tilt shear lambda_sp lambda_sf osample)) i j =
           (if getmaskarray img i j \<or> \<not> isfinite (im_data img i j)
               \<or> fgt (fabs (guess_residual img i j)) (fmul (Fin 6) (guess_dev img))
            then Fin 0 else im_data img i j)"
proof -
  from slitfunc_curved_Inr [OF assms(1)] obtain out where
    "snd (slitfunc_curved v K img ycen tilt shear lambda_sp lambda_sf osample) = caller_after_call img out"
    by (auto simp: Let_def)
  with assms(2) show ?thesis
    by (simp add: caller_after_call_def caller_before_call_def clean_img_eq clipped_mask_iff)
qed

theorem C2_caller_image_after_call_witness:
  "im_data (snd (slitfunc_curved Numpy2 idle_curved example_img [Fin (3/2), Fin (7/4)]
           (Scalar (Fin (3/2))) (Array [Fin 0, Fin (1/4)]) (Fin 0) (Fin (1/8)) 2)) 0 1 = Fin 3
   \<and> im_data example_img 0 1 = Fin 3"
proof -
  have ret: "fst (slitfunc_curved Numpy2 idle_curved example_img [Fin (3/2), Fin (7/4)]
           (Scalar (Fin (3/2))) (Array [Fin 0, Fin (1/4)]) (Fin 0) (Fin (1/8)) 2)
       = Inr (curved_result_of
            (curved_args_of example_img [Fin (3/2), Fin (7/4)]
                  (full_or_asarray (im_ncols example_img) (Scalar (Fin (3/2))))
                  (full_or_asarray (im_ncols example_img) (Array [Fin 0, Fin (1/4)]))
                  (Fin 0) (Fin (1/8)) 2 1 2) 2
            (idle_curved (curved_args_of example_img [Fin (3/2), Fin (7/4)]
                  (full_or_asarray (im_ncols example_img) (Scalar (Fin (3/2))))
                  (full_or_asarray (im_ncols example_img) (Array [Fin 0, Fin (1/4)]))
                  (Fin 0) (Fin (1/8)) 2 1 2)))"
    by (simp add: example_curved_call)
  have k: "\<not> require_shares (im_kind example_img)" by (simp add: example_img_def)
  have n: "0 < im_nrows example_img" "1 < im_ncols example_img"
    by (simp_all add: example_img_def)
  have v: "im_data example_img 0 1 = Fin 3" "\<not> getmaskarray example_img 0 1"
    by (simp_all add: example_img_def getmaskarray_def)
  have q: "\<not> fgt (fabs (guess_residual example_img 0 1)) (fmul (Fin 6) (guess_dev example_img))"
    by (simp add: example_img_guess fgt_def round64_eval)
  from C2_caller_image_after_call [OF ret k n] v q show ?thesis by simp
qed

subsection \<open>C3: the curvature padding width\<close>

text \<open>
  C3 says that the padding width \<open>dx\<close> is the ceiling of the largest absolute
  displacement \<open>tilt * y + shear * y\<^sup>2\<close> over the rows of the patch, and is never
  negative. Lines 237 to 241 compute the displacements in doubles, over the \<open>nrows + 1\<close>
  integers from \<open>- y_lower_lim\<close> on, one more than the patch has rows.
  For a tilt of 0.1 and a trace at row 10 of an image of one row, the product
  of 0.1 and -10 is rounded to -1 and \<open>dx\<close> is 1, where the ceiling of the exact
  displacement is 2. For a tilt of \<open>2\<^sup>1\<^sup>0\<^sup>2\<^sup>3\<close> and an image of two rows the displacement
  at \<open>y = 2\<close> is beyond the largest double, and the call raises an
  \<^verbatim>\<open>OverflowError\<close>: there is no \<open>dx\<close>. For a tilt of 1, a trace at row 0 and an
  image of two rows, \<open>dx\<close> is 2, the displacement at \<open>y = 2\<close>, where the largest
  displacement over the two rows 0 and 1 of the patch is 1.
\<close>

theorem C3_padding_width_counterexample:
  "np_min (map astype_c_int [Fin 10]) = Inr 10
   \<and> fst (slitfunc_curved Numpy2 idle_curved example_neg [Fin 10] (Scalar (Fin tenth))
            (Scalar (Fin 0)) (Fin 0) (Fin (1/8)) 1)
       = Inr (curved_result_of
               (curved_args_of example_neg [Fin 10] [Fin tenth] [Fin 0] (Fin 0) (Fin (1/8)) 1 10 1) 1
               (idle_curved
                 (curved_args_of example_neg [Fin 10] [Fin tenth] [Fin 0] (Fin 0) (Fin (1/8)) 1 10 1)))
   \<and> curvature_dx Numpy2 [Fin tenth] [Fin 0] (im_nrows example_neg) 10 = Inr 1
   \<and> curvature_dx Numpy1 [Fin tenth] [Fin 0] (im_nrows example_neg) 10 = Inr 1
   \<and> spec_padding [tenth] [0] [- 10, - 9] = 2
   \<and> fst (slitfunc_curved Numpy2 idle_curved example_tall [Fin 0] (Scalar (Fin huge))
            (Scalar (Fin 0)) (Fin 0) (Fin (1/8)) 1)
       = Inl (OverflowError ''cannot convert float infinity to integer'')
   \<and> fst (slitfunc_curved Numpy1 idle_curved example_tall [Fin 0] (Scalar (Fin huge))
            (Scalar (Fin 0)) (Fin 0) (Fin (1/8)) 1)
       = Inl (OverflowError ''cannot convert float infinity to integer'')
   \<and> np_min (map astype_c_int [Fin 0]) = Inr 0
   \<and> curvature_dx Numpy2 [Fin 1] [Fin 0] (im_nrows example_tall) 0 = Inr 2
   \<and> spec_padding [1] [0] [0, 1] = 1"
proof -
  have n: "im_nrows example_neg = 1" "im_ncols example_neg = 1"
    "im_nrows example_tall = 2" "im_ncols example_tall = 1"
    by (simp_all add: example_neg_def example_tall_def)
  have m: "np_min (map astype_c_int [Fin 10]) = Inr 10" "np_min (map astype_c_int [Fin 0]) = Inr 0"
    by (simp_all add: trunc_def)
  have chk: "curved_checks example_neg [Fin 10] (full_or_asarray (im_ncols example_neg) (Scalar (Fin tenth)))
              (full_or_asarray (im_ncols example_neg) (Scalar (Fin 0))) (Fin 0) (Fin (1/8)) 1 = None"
    "curved_checks example_tall [Fin 0] (full_or_asarray (im_ncols example_tall) (Scalar (Fin huge)))
              (full_or_asarray (im_ncols example_tall) (Scalar (Fin 0))) (Fin 0) (Fin (1/8)) 1 = None"
    by (simp_all add: curved_checks_def fge_def n)
  have f: "full_or_asarray (im_ncols example_neg) (Scalar d) = [d]"
    "full_or_asarray (im_ncols example_tall) (Scalar d) = [d]" for d
    by (simp_all add: n)
  have dx: "curvature_dx v (full_or_asarray (im_ncols example_neg) (Scalar (Fin tenth)))
              (full_or_asarray (im_ncols example_neg) (Scalar (Fin 0))) (im_nrows example_neg) 10 = Inr 1" for v
    unfolding f n(1) by (rule tenth_dx)
  have a: "fst (slitfunc_curved Numpy2 idle_curved example_neg [Fin 10] (Scalar (Fin tenth))
            (Scalar (Fin 0)) (Fin 0) (Fin (1/8)) 1)
       = Inr (curved_result_of
               (curved_args_of example_neg [Fin 10] [Fin tenth] [Fin 0] (Fin 0) (Fin (1/8)) 1 10 1) 1
               (idle_curved
                 (curved_args_of example_neg [Fin 10] [Fin tenth] [Fin 0] (Fin 0) (Fin (1/8)) 1 10 1)))"
    unfolding slitfunc_curved_eq [OF chk(1) m(1) dx] f by simp
  have b: "fst (slitfunc_curved v idle_curved example_tall [Fin 0] (Scalar (Fin huge))
            (Scalar (Fin 0)) (Fin 0) (Fin (1/8)) 1)
       = Inl (OverflowError ''cannot convert float infinity to integer'')" for v
    using chk(2) m(2) huge_dx [of v] by (simp add: slitfunc_curved_def Let_def n)
  from m a tenth_dx [of Numpy2] tenth_dx [of Numpy1] spec_padding_tenth b [of Numpy2] b [of Numpy1]
    one_dx [of Numpy2] spec_padding_one n
  show ?thesis by simp
qed

text \<open>
  C3, amended. In \<^verbatim>\<open>slitfunc_curved\<close>, once the assertions have passed and the lowest
  integer offset \<open>y_lower_lim\<close> of the trace is known, the displacement
  \<open>tilt * y + shear * y\<^sup>2\<close> is evaluated in doubles, both products and the sum being
  rounded, for every column and for the \<open>nrows + 1\<close> integers \<open>y\<close> from
  \<open>- y_lower_lim\<close> to \<open>nrows - y_lower_lim\<close>. When all these rounded displacements are
  finite, \<open>dx\<close> is the ceiling of the largest of their absolute values, and it is not
  negative; when one of them is not finite, the call raises an \<^verbatim>\<open>OverflowError\<close> or a
  \<^verbatim>\<open>ValueError\<close>. This holds for both versions of numpy when \<open>y\<close> and its square stay
  within 32 bits for the first and the last of these rows.
\<close>

theorem C3_padding_width:
  assumes "curved_checks img ycen tilt shear lambda_sp lambda_sf osample = None"
      and "np_min (map astype_c_int ycen) = Inr y_lower_lim"
      and "y_lower_lim * y_lower_lim < 2147483648"
      and "(int (im_nrows img) - y_lower_lim) * (int (im_nrows img) - y_lower_lim) < 2147483648"
  shows "((\<forall>i < im_ncols img. \<forall>y \<in> {- y_lower_lim .. int (im_nrows img) - y_lower_lim}.
             rounded_displacement (real_of (tilt ! i)) (real_of (shear ! i)) y \<noteq> None)
          \<longrightarrow> curvature_dx v tilt shear (im_nrows img) y_lower_lim
                = Inr \<lceil>Max {\<bar>the (rounded_displacement (real_of (tilt ! i)) (real_of (shear ! i)) y)\<bar> | i y.
                           i < im_ncols img
                         \<and> y \<in> {- y_lower_lim .. int (im_nrows img) - y_lower_lim}}\<rceil>
              \<and> 0 \<le> \<lceil>Max {\<bar>the (rounded_displacement (real_of (tilt ! i)) (real_of (shear ! i)) y)\<bar> | i y.
                           i < im_ncols img
                         \<and> y \<in> {- y_lower_lim .. int (im_nrows img) - y_lower_lim}}\<rceil>)
       \<and> (\<not> (\<forall>i < im_ncols img. \<forall>y \<in> {- y_lower_lim .. int (im_nrows img) - y_lower_lim}.
               rounded_displacement (real_of (tilt ! i)) (real_of (shear ! i)) y \<noteq> None)
          \<longrightarrow> curvature_dx v tilt shear (im_nrows img) y_lower_lim
                  = Inl (OverflowError ''cannot convert float infinity to integer'')
              \<or> curvature_dx v tilt shear (im_nrows img) y_lower_lim
                  = Inl (ValueError ''cannot convert float NaN to integer''))"
proof -
  let ?ts = "map real_of tilt" and ?ss = "map real_of shear"
  from assms(1) have len: "im_ncols img = length ycen" "im_ncols img = length tilt"
      "im_ncols img = length shear"
    and fin: "list_all isfinite tilt" "list_all isfinite shear"
    by (simp_all add: curved_checks_None)
  from np_min_Inr [OF assms(2)] len have ne: "?ts \<noteq> []" by auto
  have tilt: "tilt = map Fin ?ts" and shear: "shear = map Fin ?ss"
    using fin by (auto dest: list_all_isfinite)
  have l: "length ?ts = length ?ss" "length ?ts = im_ncols img" using len by simp_all
  have nth: "?ts ! i = real_of (tilt ! i)" "?ss ! i = real_of (shear ! i)" if "i < im_ncols img" for i
    using that len by simp_all
  let ?S = "{\<bar>the (rounded_displacement (?ts ! i) (?ss ! i) y)\<bar> | i y.
               i < length ?ts \<and> y \<in> {- y_lower_lim .. int (im_nrows img) - y_lower_lim}}"
  let ?T = "{\<bar>the (rounded_displacement (real_of (tilt ! i)) (real_of (shear ! i)) y)\<bar> | i y.
               i < im_ncols img \<and> y \<in> {- y_lower_lim .. int (im_nrows img) - y_lower_lim}}"
  have ST: "?S = ?T"
  proof -
    have "\<bar>the (rounded_displacement (?ts ! i) (?ss ! i) y)\<bar>
            = \<bar>the (rounded_displacement (real_of (tilt ! i)) (real_of (shear ! i)) y)\<bar>"
      if "i < im_ncols img" for i y
      using nth [OF that] by simp
    then show ?thesis unfolding l(2) by (intro Collect_cong) (metis (no_types, lifting))
  qed
  show ?thesis
  proof (intro conjI impI)
    assume all: "\<forall>i < im_ncols img. \<forall>y \<in> {- y_lower_lim .. int (im_nrows img) - y_lower_lim}.
             rounded_displacement (real_of (tilt ! i)) (real_of (shear ! i)) y \<noteq> None"
    have some: "rounded_displacement (?ts ! i) (?ss ! i) y \<noteq> None"
      if "i < length ?ts" "y \<in> {- y_lower_lim .. int (im_nrows img) - y_lower_lim}" for i y
      using all that l(2) nth [of i] by simp
    from curvature_dx_finite(1) [OF assms(3,4) l(1) ne some, of v]
      curvature_dx_finite(2) [OF assms(3,4) l(1) ne some]
    have "curvature_dx v (map Fin ?ts) (map Fin ?ss) (im_nrows img) y_lower_lim = Inr \<lceil>Max ?S\<rceil>"
      and "0 \<le> \<lceil>Max ?S\<rceil>"
      by blast+
    then show "curvature_dx v tilt shear (im_nrows img) y_lower_lim = Inr \<lceil>Max ?T\<rceil>"
      and "0 \<le> \<lceil>Max ?T\<rceil>"
      unfolding ST using tilt shear by simp_all
  next
    assume "\<not> (\<forall>i < im_ncols img. \<forall>y \<in> {- y_lower_lim .. int (im_nrows img) - y_lower_lim}.
               rounded_displacement (real_of (tilt ! i)) (real_of (shear ! i)) y \<noteq> None)"
    then obtain i y where i: "i < im_ncols img"
      and y: "y \<in> {- y_lower_lim .. int (im_nrows img) - y_lower_lim}"
      and none: "rounded_displacement (real_of (tilt ! i)) (real_of (shear ! i)) y = None"
      by blast
    from i l(2) have i': "i < length ?ts" by simp
    from none nth [OF i] have none': "rounded_displacement (?ts ! i) (?ss ! i) y = None" by simp
    from curvature_dx_overflow [OF assms(3,4) l(1) i' y none', of v] tilt shear
    show "curvature_dx v tilt shear (im_nrows img) y_lower_lim
                  = Inl (OverflowError ''cannot convert float infinity to integer'')
              \<or> curvature_dx v tilt shear (im_nrows img) y_lower_lim
                  = Inl (ValueError ''cannot convert float NaN to integer'')"
      by simp
  qed
qed

theorem C3_padding_width_witness:
  "curvature_dx Numpy2 (full_or_asarray (im_ncols example_img) (Scalar (Fin (3/2))))
       (full_or_asarray (im_ncols example_img) (Array [Fin 0, Fin (1/4)]))
       (im_nrows example_img) 1
     = Inr \<lceil>Max {\<bar>the (rounded_displacement
                      (real_of (full_or_asarray (im_ncols example_img) (Scalar (Fin (3/2))) ! i))
                      (real_of (full_or_asarray (im_ncols example_img) (Array [Fin 0, Fin (1/4)]) ! i))
                      y)\<bar> | i y.
                    i < im_ncols example_img \<and> y \<in> {- 1 .. int (im_nrows example_img) - 1}}\<rceil>
   \<and> 0 \<le> \<lceil>Max {\<bar>the (rounded_displacement
                      (real_of (full_or_asarray (im_ncols example_img) (Scalar (Fin (3/2))) ! i))
                      (real_of (full_or_asarray (im_ncols example_img) (Array [Fin 0, Fin (1/4)]) ! i))
                      y)\<bar> | i y.
                    i < im_ncols example_img \<and> y \<in> {- 1 .. int (im_nrows example_img) - 1}}\<rceil>
   \<and> curvature_dx Numpy2 (full_or_asarray (im_ncols example_img) (Scalar (Fin (3/2))))
       (full_or_asarray (im_ncols example_img) (Array [Fin 0, Fin (1/4)]))
       (im_nrows example_img) 1 = Inr 2"
proof -
  have n: "im_nrows example_img = 1" "im_ncols example_img = 2" by (simp_all add: example_img_def)
  have b: "(1::int) * 1 < 2147483648"
    "(int (im_nrows example_img) - 1) * (int (im_nrows example_img) - 1) < 2147483648"
    by (simp_all add: n)
  have rows: "y = - 1 \<or> y = 0" if "y \<in> {- 1 .. int (im_nrows example_img) - 1}" for y :: int
    using that by (auto simp: n)
  have cols: "i = 0 \<or> i = 1" if "i < im_ncols example_img" for i
    using that by (auto simp: n)
  have fin: "\<forall>i < im_ncols example_img. \<forall>y \<in> {- 1 .. int (im_nrows example_img) - 1}.
       rounded_displacement
         (real_of (full_or_asarray (im_ncols example_img) (Scalar (Fin (3/2))) ! i))
         (real_of (full_or_asarray (im_ncols example_img) (Array [Fin 0, Fin (1/4)]) ! i)) y \<noteq> None"
  proof (intro allI impI ballI)
    fix i y
    assume "i < im_ncols example_img" "y \<in> {- 1 .. int (im_nrows example_img) - 1}"
    with rows cols have "(i = 0 \<or> i = 1) \<and> (y = - 1 \<or> y = 0)" by blast
    then show "rounded_displacement
         (real_of (full_or_asarray (im_ncols example_img) (Scalar (Fin (3/2))) ! i))
         (real_of (full_or_asarray (im_ncols example_img) (Array [Fin 0, Fin (1/4)]) ! i)) y \<noteq> None"
      by (auto simp: n rounded_displacement_def numeral_2_eq_2 round64_eval)
  qed
  from C3_padding_width [where v = Numpy2, OF example_checks example_y_lower_lim b, THEN conjunct1,
         rule_format, OF fin [rule_format]] example_dx [of Numpy2]
  show ?thesis by simp
qed

subsection \<open>C4: the trimmed edges of the spectrum\<close>

text \<open>
  C4. For every call of \<^verbatim>\<open>slitfunc_curved\<close> that returns and in which the padding width
  \<open>dx\<close> computed in lines 237 to 241 is positive, the returned spectrum has one entry
  per column, and its first \<open>dx\<close> and its last \<open>dx\<close> entries are exactly zero (all of
  them when the spectrum has fewer than \<open>dx\<close> entries).
\<close>

theorem C4_spectrum_edges_zero:
  assumes "fst (slitfunc_curved v K img ycen tilt shear lambda_sp lambda_sf osample) = Inr c"
      and "np_min (map astype_c_int ycen) = Inr y_lower_lim"
      and "curvature_dx v (full_or_asarray (im_ncols img) tilt) (full_or_asarray (im_ncols img) shear)
             (im_nrows img) y_lower_lim = Inr dx"
      and "0 < dx"
  shows "length (c_sp c) = im_ncols img \<and>
         (\<forall>i < length (c_sp c). int i < dx \<or> int (length (c_sp c)) - dx \<le> int i
              \<longrightarrow> c_sp c ! i = Fin 0)"
proof -
  from slitfunc_curved_Inr [OF assms(1)] assms(2,3) assms(1)
  obtain out where c: "c = curved_result_of
        (curved_args_of img ycen (full_or_asarray (im_ncols img) tilt)
           (full_or_asarray (im_ncols img) shear) lambda_sp lambda_sf osample y_lower_lim dx) dx out"
    by (auto simp: Let_def)
  have len: "length (c_sp c) = im_ncols img"
    by (simp add: c curved_result_of_def length_trim_edges curved_args_buffers)
  moreover have "c_sp c ! i = Fin 0"
    if "i < length (c_sp c)" "int i < dx \<or> int (length (c_sp c)) - dx \<le> int i" for i
    using that assms(4) len
    by (simp add: c curved_result_of_def nth_trim_edges curved_args_buffers)
  ultimately show ?thesis by blast
qed

theorem C4_spectrum_edges_zero_witness:
  "\<exists>c. fst (slitfunc_curved Numpy2 idle_curved example_wide [Fin 0, Fin (1/2), Fin (1/4), Fin 0]
              (Scalar (Fin 1)) (Scalar (Fin 0)) (Fin 0) (Fin (1/8)) 1) = Inr c
       \<and> length (c_sp c) = 4 \<and> c_sp c ! 0 = Fin 0 \<and> c_sp c ! 3 = Fin 0"
proof -
  have chk: "curved_checks example_wide [Fin 0, Fin (1/2), Fin (1/4), Fin 0]
     (full_or_asarray (im_ncols example_wide) (Scalar (Fin 1)))
     (full_or_asarray (im_ncols example_wide) (Scalar (Fin 0))) (Fin 0) (Fin (1/8)) 1 = None"
    by (simp add: curved_checks_def fge_def example_wide_def list_all_iff)
  have yl: "np_min (map astype_c_int [Fin 0, Fin (1/2), Fin (1/4), Fin 0]) = Inr 0"
    by (simp add: trunc_def)
  have stop: "curvature_stop Numpy2 (im_nrows example_wide) 0 = Inr 2"
    using curvature_stop_small [of "im_nrows example_wide" 0 Numpy2] by (simp add: example_wide_def)
  have yy: "curvature_yy 0 2 = [0, 1]"
    by (simp add: curvature_yy_def arange_def neg_int32_def INT_MIN_def upto.simps)
  have yy2: "curvature_yy2 Numpy2 [0, 1] = [0, 1]"
    by (simp add: curvature_yy2_def wrap_int_def)
  have t: "full_or_asarray (im_ncols example_wide) (Scalar d) = [d, d, d, d]" for d
    by (simp add: example_wide_def eval_nat_numeral)
  have m: "curvature_max [Fin 1, Fin 1, Fin 1, Fin 1] [Fin 0, Fin 0, Fin 0, Fin 0] [0, 1] [0, 1]
             = Inr (Fin 1)"
    by (simp add: curvature_max_def einsum_ij_def add2_def np_max2_def to_double_def fmax_def
        round64_eval)
  have dx: "curvature_dx Numpy2 (full_or_asarray (im_ncols example_wide) (Scalar (Fin 1)))
     (full_or_asarray (im_ncols example_wide) (Scalar (Fin 0)))
     (im_nrows example_wide) 0 = Inr 1"
    unfolding curvature_dx_def stop t by (simp add: yy yy2 m trunc_def)
  obtain c where c: "fst (slitfunc_curved Numpy2 idle_curved example_wide [Fin 0, Fin (1/2), Fin (1/4), Fin 0]
              (Scalar (Fin 1)) (Scalar (Fin 0)) (Fin 0) (Fin (1/8)) 1) = Inr c"
    by (simp add: slitfunc_curved_eq [OF chk yl dx])
  have n: "im_ncols example_wide = 4" by (simp add: example_wide_def)
  have pos: "(0::int) < 1" by simp
  from C4_spectrum_edges_zero [OF c yl dx pos]
  have len: "length (c_sp c) = im_ncols example_wide"
    and z: "\<forall>i < length (c_sp c). int i < 1 \<or> int (length (c_sp c)) - 1 \<le> int i
              \<longrightarrow> c_sp c ! i = Fin 0"
    by blast+
  from len n have l4: "length (c_sp c) = 4" by simp
  from z [rule_format, of 0] l4 have z0: "c_sp c ! 0 = Fin 0" by simp
  from z [rule_format, of 3] l4 have z3: "c_sp c ! 3 = Fin 0" by simp
  from c l4 z0 z3 show ?thesis by blast
qed

subsection \<open>C5: pixels that are not finite\<close>

text \<open>
  C5. Every pixel whose value is not finite is treated as rejected by both wrappers.
  \<^verbatim>\<open>slitfunc_curved\<close> does so (line 209): whatever the image, such a pixel gets the flag 0
  and the value 0.
\<close>

lemma C5_curved_rejects_nonfinite:
  assumes "i < im_nrows img" and "j < im_ncols img" and "\<not> isfinite (im_data img i j)"
  shows "ca_mask (curved_args_of img ycen tilt shear lambda_sp lambda_sf osample y_lower_lim dx) ! i ! j = 0
       \<and> ca_img (curved_args_of img ycen tilt shear lambda_sp lambda_sf osample y_lower_lim dx) ! i ! j = Fin 0"
  using assms by (simp add: curved_args_of_def Let_def tabulate2_nth nonfinite_rejected)

text \<open>
  C5 at a failing input. \<^verbatim>\<open>slitfunc\<close> has no such line: for a plain image holding a NaN
  beside a 3 it hands the native code the flag 1 (use the pixel) for the NaN, the NaN
  itself in the image, and NaN as the first guess of the spectrum in that column. For
  the same image \<^verbatim>\<open>slitfunc_curved\<close> passes the flag 0 and the value 0.
\<close>

theorem C5_slitfunc_passes_nonfinite_pixel:
  "\<not> isfinite (im_data example_nan 0 0)
   \<and> va_mask (slitfunc_args example_nan [Fin 0, Fin 0] (Fin 0) (Fin (1/8)) 1) = [[1, 1]]
   \<and> va_img (slitfunc_args example_nan [Fin 0, Fin 0] (Fin 0) (Fin (1/8)) 1) = [[NaN, Fin 3]]
   \<and> va_sp (slitfunc_args example_nan [Fin 0, Fin 0] (Fin 0) (Fin (1/8)) 1) = [NaN, Fin 3]
   \<and> ca_mask (curved_args_of example_nan [Fin 0, Fin 0] [Fin 0, Fin 0] [Fin 0, Fin 0]
                 (Fin 0) (Fin (1/8)) 1 0 0) = [[0, 1]]
   \<and> ca_img (curved_args_of example_nan [Fin 0, Fin 0] [Fin 0, Fin 0] [Fin 0, Fin 0]
                 (Fin 0) (Fin (1/8)) 1 0 0) = [[Fin 0, Fin 3]]"
proof -
  have a: "\<not> isfinite (im_data example_nan 0 0)" by (simp add: example_nan_def)
  have b: "va_mask (slitfunc_args example_nan [Fin 0, Fin 0] (Fin 0) (Fin (1/8)) 1) = [[1, 1]]"
    "va_img (slitfunc_args example_nan [Fin 0, Fin 0] (Fin 0) (Fin (1/8)) 1) = [[NaN, Fin 3]]"
    "va_sp (slitfunc_args example_nan [Fin 0, Fin 0] (Fin 0) (Fin (1/8)) 1) = [NaN, Fin 3]"
    by (simp_all add: slitfunc_args_def Let_def tabulate2_def ma_sum_axis0_def sum_axis0_def
        seq_sum_def example_nan_def getmaskarray_def upt_conv_Cons round64_eval)
  have m: "clipped_mask example_nan 0 0" "\<not> clipped_mask example_nan 0 (Suc 0)"
    by (simp_all add: clipped_mask_iff example_nan_guess fgt_def round64_eval)
       (simp_all add: example_nan_def getmaskarray_def)
  have v: "im_data example_nan 0 (Suc 0) = Fin 3" by (simp add: example_nan_def)
  have n: "im_nrows example_nan = 1" "im_ncols example_nan = 2" by (simp_all add: example_nan_def)
  have c: "ca_mask (curved_args_of example_nan [Fin 0, Fin 0] [Fin 0, Fin 0] [Fin 0, Fin 0]
                 (Fin 0) (Fin (1/8)) 1 0 0) = [[0, 1]]"
    "ca_img (curved_args_of example_nan [Fin 0, Fin 0] [Fin 0, Fin 0] [Fin 0, Fin 0]
                 (Fin 0) (Fin (1/8)) 1 0 0) = [[Fin 0, Fin 3]]"
    by (simp_all add: curved_args_of_def Let_def n tabulate2_def upt_conv_Cons int_mask_def
        clean_img_eq m v)
  from a b c show ?thesis by blast
qed

subsection \<open>C6: validation errors\<close>

text \<open>
  C6. Both wrappers raise an \<^verbatim>\<open>AssertionError\<close>, and return nothing, whenever the
  oversampling is not positive, a smoothing weight is negative, or the length of the trace
  differs from the number of columns. \<^verbatim>\<open>slitfunc_curved\<close> does so as well when tilt or
  shear (a scalar being repeated for every column) has a length other than the number of
  columns, or when trace, tilt or shear holds a value that is not finite.
\<close>

theorem C6_validation_errors:
  "(osample \<le> 0 \<or> flt lambda_sp (Fin 0) \<or> flt lambda_sf (Fin 0) \<or> length ycen \<noteq> im_ncols img
      \<longrightarrow> (\<exists>msg. slitfunc K1 img ycen lambda_sp lambda_sf osample = Inl (AssertionError msg)))
   \<and> (osample \<le> 0 \<or> flt lambda_sp (Fin 0) \<or> flt lambda_sf (Fin 0) \<or> length ycen \<noteq> im_ncols img
       \<or> length (full_or_asarray (im_ncols img) tilt) \<noteq> im_ncols img
       \<or> length (full_or_asarray (im_ncols img) shear) \<noteq> im_ncols img
       \<or> \<not> list_all isfinite ycen
       \<or> \<not> list_all isfinite (full_or_asarray (im_ncols img) tilt)
       \<or> \<not> list_all isfinite (full_or_asarray (im_ncols img) shear)
      \<longrightarrow> (\<exists>msg. fst (slitfunc_curved v K2 img ycen tilt shear lambda_sp lambda_sf osample)
                    = Inl (AssertionError msg)))"
proof (intro conjI impI)
  assume "osample \<le> 0 \<or> flt lambda_sp (Fin 0) \<or> flt lambda_sf (Fin 0) \<or> length ycen \<noteq> im_ncols img"
  then show "\<exists>msg. slitfunc K1 img ycen lambda_sp lambda_sf osample = Inl (AssertionError msg)"
    by (auto simp: slitfunc_def dest: flt_zero_not_fge)
next
  assume bad: "osample \<le> 0 \<or> flt lambda_sp (Fin 0) \<or> flt lambda_sf (Fin 0) \<or> length ycen \<noteq> im_ncols img
       \<or> length (full_or_asarray (im_ncols img) tilt) \<noteq> im_ncols img
       \<or> length (full_or_asarray (im_ncols img) shear) \<noteq> im_ncols img
       \<or> \<not> list_all isfinite ycen
       \<or> \<not> list_all isfinite (full_or_asarray (im_ncols img) tilt)
       \<or> \<not> list_all isfinite (full_or_asarray (im_ncols img) shear)"
  then have "curved_checks img ycen (full_or_asarray (im_ncols img) tilt)
               (full_or_asarray (im_ncols img) shear) lambda_sp lambda_sf osample \<noteq> None"
    by (auto simp: curved_checks_None dest: flt_zero_not_fge)
  then obtain msg where "curved_checks img ycen (full_or_asarray (im_ncols img) tilt)
               (full_or_asarray (im_ncols img) shear) lambda_sp lambda_sf osample = Some (AssertionError msg)"
    by (auto simp: curved_checks_def split: if_splits)
  then show "\<exists>msg. fst (slitfunc_curved v K2 img ycen tilt shear lambda_sp lambda_sf osample)
                    = Inl (AssertionError msg)"
    by (auto simp: slitfunc_curved_def Let_def)
qed

theorem C6_validation_errors_witness:
  "(\<exists>msg. slitfunc idle_vert example_img [Fin (3/2), Fin (7/4)] (Fin 0) (Fin (1/8)) 0
            = Inl (AssertionError msg))
   \<and> (\<exists>msg. fst (slitfunc_curved Numpy2 idle_curved example_img [Fin (3/2), Fin (7/4)]
                   (Scalar NaN) (Array [Fin 0, Fin (1/4)]) (Fin 0) (Fin (1/8)) 2)
            = Inl (AssertionError msg))"
proof -
  have t: "\<not> list_all isfinite (full_or_asarray (im_ncols example_img) (Scalar NaN))"
    by (simp add: example_img_def numeral_2_eq_2)
  from C6_validation_errors [where osample = 0 and lambda_sp = "Fin 0" and lambda_sf = "Fin (1/8)"
         and ycen = "[Fin (3/2), Fin (7/4)]" and img = example_img and ?K1.0 = idle_vert,
         THEN conjunct1]
  have a: "\<exists>msg. slitfunc idle_vert example_img [Fin (3/2), Fin (7/4)] (Fin 0) (Fin (1/8)) 0
            = Inl (AssertionError msg)"
    by simp
  from C6_validation_errors [where osample = 2 and lambda_sp = "Fin 0" and lambda_sf = "Fin (1/8)"
         and ycen = "[Fin (3/2), Fin (7/4)]" and img = example_img and tilt = "Scalar NaN"
         and shear = "Array [Fin 0, Fin (1/4)]" and ?K2.0 = idle_curved, THEN conjunct2] t
  have b: "\<exists>msg. fst (slitfunc_curved Numpy2 idle_curved example_img [Fin (3/2), Fin (7/4)]
                   (Scalar NaN) (Array [Fin 0, Fin (1/4)]) (Fin 0) (Fin (1/8)) 2)
            = Inl (AssertionError msg)"
    by blast
  from a b show ?thesis by blast
qed

subsection \<open>C8: the per-pixel uncertainty\<close>

text \<open>
  C8 says that both wrappers pass \<open>sqrt (max v 0)\<close> of every pixel \<open>v\<close> of the working
  image as its uncertainty. \<^verbatim>\<open>slitfunc\<close> passes \<^verbatim>\<open>np.zeros_like(img)\<close> (line 107): 0 for
  the pixel holding 3 of the example image, where the clipped root is the double nearest
  to the square root of 3, which is not 0. \<^verbatim>\<open>slitfunc_curved\<close> takes the square root of
  the absolute value (line 231): 2 for a pixel holding -4, where the clipped root is 0.
\<close>

theorem C8_pixel_uncertainty_counterexample:
  "va_img (slitfunc_args example_img [Fin (3/2), Fin (7/4)] (Fin 0) (Fin (1/8)) 2) ! 0 ! 1 = Fin 3
   \<and> va_pix_unc (slitfunc_args example_img [Fin (3/2), Fin (7/4)] (Fin 0) (Fin (1/8)) 2) ! 0 ! 1 = Fin 0
   \<and> sqrt_clipped (Fin 3) = round64 (sqrt 3) \<and> round64 (sqrt 3) \<noteq> Fin 0
   \<and> clean_img example_neg 0 0 = Fin (- 4)
   \<and> curved_pix_unc example_neg 0 0 = Fin 2
   \<and> sqrt_clipped (Fin (- 4)) = Fin 0"
proof -
  have a: "va_img (slitfunc_args example_img [Fin (3/2), Fin (7/4)] (Fin 0) (Fin (1/8)) 2) ! 0 ! 1 = Fin 3"
    "va_pix_unc (slitfunc_args example_img [Fin (3/2), Fin (7/4)] (Fin 0) (Fin (1/8)) 2) ! 0 ! 1 = Fin 0"
    by (simp_all add: slitfunc_args_def Let_def tabulate2_def zeros2_def example_img_def numeral_2_eq_2)
  have b: "sqrt_clipped (Fin 3) = round64 (sqrt 3)" "sqrt_clipped (Fin (- 4)) = Fin 0"
    by (simp_all add: sqrt_clipped_def fmax_def round64_eval)
  have "1 \<le> sqrt 3" by simp
  then have b': "round64 (sqrt 3) \<noteq> Fin 0" by (rule round64_nonzero)
  have c: "clean_img example_neg 0 0 = Fin (- 4)"
    by (simp add: clean_img_eq example_neg_guess) (simp add: example_neg_def)
  have "sqrt 4 = 2" by (rule real_sqrt_four)
  with c have d: "curved_pix_unc example_neg 0 0 = Fin 2"
    by (simp add: curved_pix_unc_def round64_eval)
  from a b b' c d show ?thesis by blast
qed

text \<open>
  C8, amended. \<^verbatim>\<open>slitfunc\<close> passes an uncertainty of 0 for every pixel.
  \<^verbatim>\<open>slitfunc_curved\<close> passes, for every pixel, the square root of the absolute value of
  the pixel of the cleaned working image, which is always finite; that is
  \<open>sqrt (max v 0)\<close> for a pixel \<open>v\<close> that is not negative. The square root is the
  double nearest to the root of the real number.
\<close>

theorem C8_pixel_uncertainty:
  "(\<forall>i < im_nrows img. \<forall>j < im_ncols img.
       va_pix_unc (slitfunc_args img ycen lambda_sp lambda_sf osample) ! i ! j = Fin 0)
   \<and> (\<forall>i < im_nrows img. \<forall>j < im_ncols img.
       \<exists>x. ca_img (curved_args_of img ycen tilt shear lambda_sp lambda_sf osample y_lower_lim dx) ! i ! j
              = Fin x
          \<and> ca_pix_unc (curved_args_of img ycen tilt shear lambda_sp lambda_sf osample y_lower_lim dx) ! i ! j
              = round64 (sqrt \<bar>x\<bar>))"
proof (intro conjI allI impI)
  fix i j assume "i < im_nrows img" "j < im_ncols img"
  then show "va_pix_unc (slitfunc_args img ycen lambda_sp lambda_sf osample) ! i ! j = Fin 0"
    by (simp add: slitfunc_args_def Let_def zeros2_def)
next
  fix i j assume ij: "i < im_nrows img" "j < im_ncols img"
  from clean_img_finite obtain x where x: "clean_img img i j = Fin x" by blast
  with ij show "\<exists>x. ca_img (curved_args_of img ycen tilt shear lambda_sp lambda_sf osample y_lower_lim dx) ! i ! j
              = Fin x
          \<and> ca_pix_unc (curved_args_of img ycen tilt shear lambda_sp lambda_sf osample y_lower_lim dx) ! i ! j
              = round64 (sqrt \<bar>x\<bar>)"
    by (simp add: curved_args_of_def Let_def tabulate2_nth curved_pix_unc_def)
qed

theorem C8_pixel_uncertainty_witness:
  "va_pix_unc (slitfunc_args example_neg [Fin 0] (Fin 0) (Fin (1/8)) 1) ! 0 ! 0 = Fin 0
   \<and> ca_img (curved_args_of example_neg [Fin 0] [Fin 0] [Fin 0] (Fin 0) (Fin (1/8)) 1 0 0) ! 0 ! 0
        = Fin (- 4)
   \<and> ca_pix_unc (curved_args_of example_neg [Fin 0] [Fin 0] [Fin 0] (Fin 0) (Fin (1/8)) 1 0 0) ! 0 ! 0
        = Fin 2"
proof -
  have n: "0 < im_nrows example_neg" "0 < im_ncols example_neg"
    by (simp_all add: example_neg_def)
  have c: "ca_img (curved_args_of example_neg [Fin 0] [Fin 0] [Fin 0] (Fin 0) (Fin (1/8)) 1 0 0) ! 0 ! 0
        = Fin (- 4)"
    using n by (simp add: curved_args_of_def Let_def tabulate2_nth clean_img_eq example_neg_guess)
      (simp add: example_neg_def)
  have s: "sqrt 4 = 2" by (rule real_sqrt_four)
  from C8_pixel_uncertainty [where img = example_neg and ycen = "[Fin 0]" and lambda_sp = "Fin 0"
      and lambda_sf = "Fin (1/8)" and osample = 1 and tilt = "[Fin 0]" and shear = "[Fin 0]"
      and y_lower_lim = 0 and dx = 0, THEN conjunct1, rule_format, OF n]
    C8_pixel_uncertainty [where img = example_neg and ycen = "[Fin 0]" and lambda_sp = "Fin 0"
      and lambda_sf = "Fin (1/8)" and osample = 1 and tilt = "[Fin 0]" and shear = "[Fin 0]"
      and y_lower_lim = 0 and dx = 0, THEN conjunct2, rule_format, OF n] c s
  show ?thesis by (auto simp: round64_eval)
qed

subsection \<open>C9: the length of the slit function\<close>

text \<open>
  C9. For every call of \<^verbatim>\<open>slitfunc\<close> or \<^verbatim>\<open>slitfunc_curved\<close> that returns, on an image
  with \<open>nrows\<close> rows and with oversampling \<open>osample\<close>, the returned slit function is a
  one-dimensional array of length \<open>osample * (nrows + 1) + 1\<close>: it is the buffer
  allocated in line 99 or 255 with that length, which the native code fills in place.
  Such calls exist: a call of \<^verbatim>\<open>slitfunc\<close> whose arguments pass the assertions returns,
  and so does a call of \<^verbatim>\<open>slitfunc_curved\<close> whose arguments pass the assertions, whose
  trace is not empty and whose padding width is computed (line 241 raises when a
  displacement is beyond the largest double).
\<close>

theorem C9_slit_function_length:
  "(im_ncols img = length ycen \<and> 0 < osample \<and> fge lambda_sf (Fin 0) \<and> fge lambda_sp (Fin 0)
      \<longrightarrow> (\<exists>r. slitfunc K1 img ycen lambda_sp lambda_sf osample = Inr r))
   \<and> (slitfunc K1 img ycen lambda_sp lambda_sf osample = Inr r \<longrightarrow>
      int (length (r_sl r)) = osample * (int (im_nrows img) + 1) + 1)
   \<and> (curved_checks img ycen (full_or_asarray (im_ncols img) tilt)
          (full_or_asarray (im_ncols img) shear) lambda_sp lambda_sf osample = None
       \<and> np_min (map astype_c_int ycen) = Inr y_lower_lim
       \<and> curvature_dx v (full_or_asarray (im_ncols img) tilt)
            (full_or_asarray (im_ncols img) shear) (im_nrows img) y_lower_lim = Inr dx
      \<longrightarrow> (\<exists>c. fst (slitfunc_curved v K2 img ycen tilt shear lambda_sp lambda_sf osample) = Inr c))
   \<and> (fst (slitfunc_curved v K2 img ycen tilt shear lambda_sp lambda_sf osample) = Inr c \<longrightarrow>
      int (length (c_sl c)) = osample * (int (im_nrows img) + 1) + 1)"
proof (intro conjI impI)
  assume "im_ncols img = length ycen \<and> 0 < osample \<and> fge lambda_sf (Fin 0) \<and> fge lambda_sp (Fin 0)"
  then show "\<exists>r. slitfunc K1 img ycen lambda_sp lambda_sf osample = Inr r"
    by (simp add: slitfunc_def)
next
  assume "curved_checks img ycen (full_or_asarray (im_ncols img) tilt)
          (full_or_asarray (im_ncols img) shear) lambda_sp lambda_sf osample = None
       \<and> np_min (map astype_c_int ycen) = Inr y_lower_lim
       \<and> curvature_dx v (full_or_asarray (im_ncols img) tilt)
            (full_or_asarray (im_ncols img) shear) (im_nrows img) y_lower_lim = Inr dx"
  then show "\<exists>c. fst (slitfunc_curved v K2 img ycen tilt shear lambda_sp lambda_sf osample) = Inr c"
    by (simp add: slitfunc_curved_eq)
next
  assume "slitfunc K1 img ycen lambda_sp lambda_sf osample = Inr r"
  from slitfunc_Inr [OF this]
  have pos: "0 < osample"
    and r: "r = slitfunc_result (slitfunc_args img ycen lambda_sp lambda_sf osample)
                  (K1 (slitfunc_args img ycen lambda_sp lambda_sf osample))"
    by simp_all
  from pos have "0 \<le> osample * (int (im_nrows img) + 1) + 1" by simp
  with r show "int (length (r_sl r)) = osample * (int (im_nrows img) + 1) + 1"
    by (simp add: slitfunc_result_def slitfunc_args_buffers slitfunc_ny_def)
next
  assume ret: "fst (slitfunc_curved v K2 img ycen tilt shear lambda_sp lambda_sf osample) = Inr c"
  from slitfunc_curved_Inr [OF this] obtain y_lower_lim dx where
    chk: "curved_checks img ycen (full_or_asarray (im_ncols img) tilt)
               (full_or_asarray (im_ncols img) shear) lambda_sp lambda_sf osample = None"
    and eq: "slitfunc_curved v K2 img ycen tilt shear lambda_sp lambda_sf osample =
             (let a = curved_args_of img ycen (full_or_asarray (im_ncols img) tilt)
                            (full_or_asarray (im_ncols img) shear) lambda_sp lambda_sf osample
                            y_lower_lim dx
              in (Inr (curved_result_of a dx (K2 a)), caller_after_call img (K2 a)))"
    by blast
  from chk have pos: "0 < osample" by (simp add: curved_checks_None)
  then have nn: "0 \<le> osample * (int (im_nrows img) + 1) + 1" by simp
  from eq ret
  have "c = curved_result_of
              (curved_args_of img ycen (full_or_asarray (im_ncols img) tilt)
                     (full_or_asarray (im_ncols img) shear) lambda_sp lambda_sf osample
                     y_lower_lim dx) dx
              (K2 (curved_args_of img ycen (full_or_asarray (im_ncols img) tilt)
                     (full_or_asarray (im_ncols img) shear) lambda_sp lambda_sf osample
                     y_lower_lim dx))"
    by (simp add: Let_def)
  with nn show "int (length (c_sl c)) = osample * (int (im_nrows img) + 1) + 1"
    by (simp add: curved_result_of_def curved_args_buffers)
qed

theorem C9_slit_function_length_witness:
  "(\<exists>r. slitfunc idle_vert example_img [Fin (3/2), Fin (7/4)] (Fin 0) (Fin (1/8)) 2 = Inr r
        \<and> int (length (r_sl r)) = 5)
   \<and> (\<exists>c. fst (slitfunc_curved Numpy2 idle_curved example_img [Fin (3/2), Fin (7/4)]
               (Scalar (Fin (3/2))) (Array [Fin 0, Fin (1/4)]) (Fin 0) (Fin (1/8)) 2) = Inr c
        \<and> int (length (c_sl c)) = 5)"
proof -
  have a: "im_ncols example_img = length [Fin (3/2), Fin (7/4)] \<and> (0::int) < 2
             \<and> fge (Fin (1/8)) (Fin 0) \<and> fge (Fin 0) (Fin 0)"
    by (simp add: example_img_def fge_def)
  from C9_slit_function_length [THEN conjunct1, rule_format, OF a]
  obtain r where r: "slitfunc idle_vert example_img [Fin (3/2), Fin (7/4)] (Fin 0) (Fin (1/8)) 2 = Inr r"
    by blast
  have w: "curved_checks example_img [Fin (3/2), Fin (7/4)]
             (full_or_asarray (im_ncols example_img) (Scalar (Fin (3/2))))
             (full_or_asarray (im_ncols example_img) (Array [Fin 0, Fin (1/4)]))
             (Fin 0) (Fin (1/8)) 2 = None
           \<and> np_min (map astype_c_int [Fin (3/2), Fin (7/4)]) = Inr 1
           \<and> curvature_dx Numpy2 (full_or_asarray (im_ncols example_img) (Scalar (Fin (3/2))))
                (full_or_asarray (im_ncols example_img) (Array [Fin 0, Fin (1/4)]))
                (im_nrows example_img) 1 = Inr 2"
    using example_checks example_y_lower_lim example_dx by blast
  from C9_slit_function_length [THEN conjunct2, THEN conjunct2, THEN conjunct1, rule_format, OF w]
  obtain c where c: "fst (slitfunc_curved Numpy2 idle_curved example_img [Fin (3/2), Fin (7/4)]
               (Scalar (Fin (3/2))) (Array [Fin 0, Fin (1/4)]) (Fin 0) (Fin (1/8)) 2) = Inr c"
    by blast
  have n: "im_nrows example_img = 1" by (simp add: example_img_def)
  from C9_slit_function_length [THEN conjunct2, THEN conjunct1, rule_format, OF r]
       C9_slit_function_length [THEN conjunct2, THEN conjunct2, THEN conjunct2, rule_format, OF c]
       r c n
  show ?thesis by simp
qed

subsection \<open>C10: integer shifts of the trace\<close>

text \<open>
  C10 says that \<^verbatim>\<open>slitfunc\<close> returns the same outputs for the trace \<open>ycen + k\<close> as for
  \<open>ycen\<close>, for every trace that is not negative and every array \<open>k\<close> of non-negative
  integers. Line 91 takes the integer part with \<^verbatim>\<open>astype(c_int)\<close>, a 32-bit integer. For
  the trace value 0.5 and the shift 2147483648 the sum does not fit: the native code
  receives the offset 4294967296.5 instead of 0.5, and a routine that returns the
  offsets it received returns different spectra. Below that bound the sum
  \<open>ycen + k\<close> is itself a double and is rounded: for the trace value 0.1 and the shift 3
  it is 3.1 rounded to a multiple of \<open>2 powi (- 51)\<close>, and the native code receives the
  offset 0.10000000000000009 instead of 0.1.
\<close>

theorem C10_trace_offset_counterexample:
  "fge (Fin (1/2)) (Fin 0) \<and> (0::int) \<le> 2147483648
   \<and> map2 (\<lambda>y n. fadd y (to_double n)) [Fin (1/2)] [2147483648] = [Fin (4294967297/2)]
   \<and> va_ycen (slitfunc_args example_neg [Fin (1/2)] (Fin 0) (Fin (1/8)) 1) = [Fin (1/2)]
   \<and> va_ycen (slitfunc_args example_neg [Fin (4294967297/2)] (Fin 0) (Fin (1/8)) 1)
        = [Fin (8589934593/2)]
   \<and> map_sum id r_sp (slitfunc trace_probe_vert example_neg [Fin (1/2)] (Fin 0) (Fin (1/8)) 1)
        = Inr [Fin (1/2)]
   \<and> map_sum id r_sp
        (slitfunc trace_probe_vert example_neg [Fin (4294967297/2)] (Fin 0) (Fin (1/8)) 1)
        = Inr [Fin (8589934593/2)]
   \<and> fge (Fin tenth) (Fin 0) \<and> (0::int) \<le> 3
   \<and> map2 (\<lambda>y n. fadd y (to_double n)) [Fin tenth] [3]
        = [Fin (6980579422424269 / 2251799813685248)]
   \<and> map_sum id r_sp (slitfunc trace_probe_vert example_neg [Fin tenth] (Fin 0) (Fin (1/8)) 1)
        = Inr [Fin (3602879701896397 / 36028797018963968)]
   \<and> map_sum id r_sp
        (slitfunc trace_probe_vert example_neg [Fin (6980579422424269 / 2251799813685248)]
           (Fin 0) (Fin (1/8)) 1)
        = Inr [Fin (225179981368525 / 2251799813685248)]"
proof -
  have a: "fge (Fin (1/2)) (Fin 0)" "fge (Fin tenth) (Fin 0)" by (simp_all add: fge_def tenth_def)
  have b: "map2 (\<lambda>y n. fadd y (to_double n)) [Fin (1/2)] [2147483648] = [Fin (4294967297/2)]"
    by (simp add: to_double_def round64_eval)
  have c: "va_ycen (slitfunc_args example_neg [Fin (1/2)] (Fin 0) (Fin (1/8)) 1) = [Fin (1/2)]"
    by (simp add: slitfunc_args_def Let_def to_double_def fsub_def trunc_def round64_eval)
  have d: "va_ycen (slitfunc_args example_neg [Fin (4294967297/2)] (Fin 0) (Fin (1/8)) 1)
        = [Fin (8589934593/2)]"
    by (simp add: slitfunc_args_def Let_def to_double_def fsub_def trunc_def INT_MIN_def round64_eval)
  have n: "im_ncols example_neg = 1" by (simp add: example_neg_def)
  have sp: "length (va_sp (slitfunc_args example_neg ycen (Fin 0) (Fin (1/8)) 1)) = 1" for ycen
    by (simp add: slitfunc_args_buffers ma_sum_axis0_def n)
  have probe: "map_sum id r_sp (slitfunc trace_probe_vert example_neg [y] (Fin 0) (Fin (1/8)) 1)
        = Inr [va_ycen (slitfunc_args example_neg [y] (Fin 0) (Fin (1/8)) 1) ! 0]" for y
    by (simp add: slitfunc_def fge_def n slitfunc_result_def trace_probe_vert_def written_def sp)
  have e: "map_sum id r_sp (slitfunc trace_probe_vert example_neg [Fin (1/2)] (Fin 0) (Fin (1/8)) 1)
        = Inr [Fin (1/2)]"
    unfolding probe c by simp
  have f: "map_sum id r_sp
        (slitfunc trace_probe_vert example_neg [Fin (4294967297/2)] (Fin 0) (Fin (1/8)) 1)
        = Inr [Fin (8589934593/2)]"
    unfolding probe d by simp
  have "round64 (tenth + 3) = Fin (of_int 6980579422424269 * 2 powi (1 - 52))"
    by (rule round64_value)
       (simp_all add: tenth_def round_half_even_def power_int_minus)
  then have g: "map2 (\<lambda>y n. fadd y (to_double n)) [Fin tenth] [3]
        = [Fin (6980579422424269 / 2251799813685248)]"
    by (simp add: to_double_def round64_eval power_int_minus)
  have "round64 tenth = Fin tenth"
    using round64_dyadic [of 3602879701896397 55] by (simp add: tenth_def)
  moreover have "0 \<le> tenth" "tenth < 1" "\<lfloor>tenth\<rfloor> = 0" by (simp_all add: tenth_def)
  ultimately have h: "va_ycen (slitfunc_args example_neg [Fin tenth] (Fin 0) (Fin (1/8)) 1)
        = [Fin tenth]"
    by (simp add: slitfunc_args_def Let_def to_double_def fsub_def trunc_def round64_eval)
  have "round64 (225179981368525 / 2251799813685248) = Fin (225179981368525 / 2251799813685248)"
    using round64_dyadic [of 225179981368525 51] by simp
  then have i: "va_ycen (slitfunc_args example_neg [Fin (6980579422424269 / 2251799813685248)]
                  (Fin 0) (Fin (1/8)) 1)
        = [Fin (225179981368525 / 2251799813685248)]"
    by (simp add: slitfunc_args_def Let_def to_double_def fsub_def trunc_def round64_eval)
  have j: "map_sum id r_sp (slitfunc trace_probe_vert example_neg [Fin tenth] (Fin 0) (Fin (1/8)) 1)
        = Inr [Fin (3602879701896397 / 36028797018963968)]"
    unfolding probe h by (simp add: tenth_def)
  have k: "map_sum id r_sp
        (slitfunc trace_probe_vert example_neg [Fin (6980579422424269 / 2251799813685248)]
           (Fin 0) (Fin (1/8)) 1)
        = Inr [Fin (225179981368525 / 2251799813685248)]"
    unfolding probe i by simp
  from a b c d e f g j k show ?thesis by simp
qed

text \<open>
  C10, amended. For every image, every trace \<open>ycen\<close> and every array \<open>k\<close> of the same
  length such that each \<open>ycen[j]\<close> is at least 0, each \<open>k[j]\<close> is a non-negative
  integer, each sum \<open>ycen[j] + k[j]\<close> is a double (the addition does not round) and is
  below 2147483648, \<^verbatim>\<open>slitfunc\<close> called with the trace \<open>ycen + k\<close> hands the native code
  the same values and returns the same outputs (or raises the same error) as with
  \<open>ycen\<close>.
\<close>

theorem C10_trace_offset:
  assumes "length k = length ycen"
      and "\<forall>j < length ycen. fge (ycen ! j) (Fin 0) \<and> 0 \<le> k ! j
              \<and> fadd (ycen ! j) (to_double (k ! j)) = Fin (real_of (ycen ! j) + real_of_int (k ! j))
              \<and> real_of (ycen ! j) + real_of_int (k ! j) < 2147483648"
  shows "slitfunc K img (map2 (\<lambda>y n. fadd y (to_double n)) ycen k) lambda_sp lambda_sf osample
         = slitfunc K img ycen lambda_sp lambda_sf osample"
proof -
  let ?ycen' = "map2 (\<lambda>y n. fadd y (to_double n)) ycen k"
  have len: "length ?ycen' = length ycen" using assms(1) by simp
  have "map (\<lambda>y. fsub y (to_double (astype_c_int y))) ?ycen'
          = map (\<lambda>y. fsub y (to_double (astype_c_int y))) ycen"
  proof (rule nth_equalityI)
    show "length (map (\<lambda>y. fsub y (to_double (astype_c_int y))) ?ycen')
            = length (map (\<lambda>y. fsub y (to_double (astype_c_int y))) ycen)"
      using len by simp
  next
    fix j assume "j < length (map (\<lambda>y. fsub y (to_double (astype_c_int y))) ?ycen')"
    then have j: "j < length ycen" "j < length k" using assms(1) by simp_all
    with assms(2) have h: "fge (ycen ! j) (Fin 0)" "0 \<le> k ! j"
        "fadd (ycen ! j) (to_double (k ! j)) = Fin (real_of (ycen ! j) + real_of_int (k ! j))"
        "real_of (ycen ! j) + real_of_int (k ! j) < 2147483648"
      by simp_all
    from h(1,3) obtain x where x: "ycen ! j = Fin x" "0 \<le> x"
      by (cases "ycen ! j"; cases "to_double (k ! j)") (auto simp: fge_def)
    from fractional_part_shift [OF x h(2)] h(3,4) x j
    show "map (\<lambda>y. fsub y (to_double (astype_c_int y))) ?ycen' ! j
            = map (\<lambda>y. fsub y (to_double (astype_c_int y))) ycen ! j"
      by simp
  qed
  then have "slitfunc_args img ?ycen' lambda_sp lambda_sf osample
           = slitfunc_args img ycen lambda_sp lambda_sf osample"
    by (simp add: slitfunc_args_def Let_def)
  with len show ?thesis by (simp add: slitfunc_def)
qed

theorem C10_trace_offset_witness:
  "slitfunc idle_vert example_img (map2 (\<lambda>y n. fadd y (to_double n)) [Fin (3/2), Fin (7/4)] [3, 0])
       (Fin 0) (Fin (1/8)) 2
   = slitfunc idle_vert example_img [Fin (3/2), Fin (7/4)] (Fin 0) (Fin (1/8)) 2"
proof -
  have a: "length [3, 0 :: int] = length [Fin (3/2), Fin (7/4)]" by simp
  have b: "\<forall>j < length [Fin (3/2), Fin (7/4)].
             fge ([Fin (3/2), Fin (7/4)] ! j) (Fin 0) \<and> 0 \<le> [3, 0 :: int] ! j
              \<and> fadd ([Fin (3/2), Fin (7/4)] ! j) (to_double ([3, 0] ! j))
                  = Fin (real_of ([Fin (3/2), Fin (7/4)] ! j) + real_of_int ([3, 0] ! j))
              \<and> real_of ([Fin (3/2), Fin (7/4)] ! j) + real_of_int ([3, 0] ! j) < 2147483648"
    by (simp add: fge_def to_double_def less_Suc_eq numeral_2_eq_2 round64_eval)
  from C10_trace_offset [OF a b] show ?thesis .
qed

end
